theory Spec2Isabelle
  imports Complex_Main "HOL-Library.Multiset"
begin

section \<open>Python exceptions\<close>

text \<open>
  Every exception the modelled functions can raise is a value of \<open>py_error\<close>.
  \<open>IOError\<close> stands for \<open>OSError\<close> and its subclasses (Python 3 makes the two names
  one class): a missing file, a directory opened as a file, a path that cannot be
  opened for writing.
\<close>

datatype py_error =
    KeyError
  | AssertionError
  | NotImplementedError
  | AttributeError
  | IndexError
  | RuntimeError
  | IOError
  | UnicodeDecodeError
  | UnpicklingError

section \<open>Strings and paths (\<open>str.strip\<close>, \<open>os.path\<close> on POSIX)\<close>

text \<open>
  A Python string is a \<open>string\<close>: a list of characters with code points below 256.
  \<open>is_space\<close> is \<open>str.isspace\<close> on one such character: the code points 9 to 13,
  28 to 32, 133 and 160.
\<close>

definition is_space :: "char \<Rightarrow> bool" where
  "is_space c = (of_char c \<in> set [9, 10, 11, 12, 13, 28, 29, 30, 31, 32, 133, 160 :: nat])"

text \<open>\<open>s.strip()\<close>: whitespace removed at both ends.\<close>

definition strip :: "string \<Rightarrow> string" where
  "strip s = rev (dropWhile is_space (rev (dropWhile is_space s)))"

text \<open>\<open>os.path.isabs(s)\<close> is \<open>s.startswith('/')\<close>.\<close>

definition isabs :: "string \<Rightarrow> bool" where
  "isabs s = (case s of [] \<Rightarrow> False | c # _ \<Rightarrow> c = CHR ''/'')"

text \<open>
  \<open>os.path.join(a, b)\<close>: an absolute \<open>b\<close> replaces \<open>a\<close>; otherwise \<open>b\<close> is appended,
  after a separator unless \<open>a\<close> is empty or ends with one.
\<close>

definition path_join :: "string \<Rightarrow> string \<Rightarrow> string" where
  "path_join a b =
     (if isabs b then b
      else if a = [] \<or> last a = CHR ''/'' then a @ b
      else a @ ''/'' @ b)"

text \<open>\<open>os.path.basename(p)\<close>: what follows the last separator.\<close>

definition basename :: "string \<Rightarrow> string" where
  "basename p = rev (takeWhile (\<lambda>c. c \<noteq> CHR ''/'') (rev p))"

text \<open>
  Reading a file opened with \<open>open(path, "r")\<close> translates the line endings
  \<open>\r\n\<close> and \<open>\r\<close> to \<open>\n\<close> (Python 3, universal newlines); writing on POSIX
  stores the text as it is.
\<close>

fun universal_newlines :: "string \<Rightarrow> string" where
  "universal_newlines [] = []"
| "universal_newlines [c] = [if c = CHR 0x0D then CHR 0x0A else c]"
| "universal_newlines (c # d # ds) =
     (if c = CHR 0x0D \<and> d = CHR 0x0A then CHR 0x0A # universal_newlines ds
      else if c = CHR 0x0D then CHR 0x0A # universal_newlines (d # ds)
      else c # universal_newlines (d # ds))"

section \<open>The file system\<close>

text \<open>
  A path holds a text file, a file written by \<open>torch.save\<close> (the pickled dictionary),
  or a directory. \<open>writable\<close> says which paths \<open>open(path, "w")\<close> can open: the parent
  directory exists and may be written. Paths are compared as strings.
\<close>

datatype 'v fs_entry = Text string | Pickle "string \<rightharpoonup> 'v" | Directory

record 'v filesystem =
  files :: "string \<rightharpoonup> 'v fs_entry"
  writable :: "string \<Rightarrow> bool"

text \<open>\<open>os.path.exists\<close>\<close>

definition path_exists :: "'v filesystem \<Rightarrow> string \<Rightarrow> bool" where
  "path_exists fs p = (case files fs p of None \<Rightarrow> False | Some e \<Rightarrow> True)"

definition can_open_w :: "'v filesystem \<Rightarrow> string \<Rightarrow> bool" where
  "can_open_w fs p = (case files fs p of Some Directory \<Rightarrow> False | _ \<Rightarrow> writable fs p)"

text \<open>
  \<open>with open(p, "w") as f: f.write(s)\<close>. The result is the exception raised, if any,
  and the file system afterwards.
\<close>

definition write_text :: "'v filesystem \<Rightarrow> string \<Rightarrow> string \<Rightarrow> py_error option \<times> 'v filesystem" where
  "write_text fs p s =
     (if can_open_w fs p then (None, fs\<lparr>files := (files fs)(p \<mapsto> Text s)\<rparr>)
      else (Some IOError, fs))"

text \<open>
  \<open>with open(p, "r") as f: f.read()\<close>. A pickled file is not text: decoding it is
  modelled as failing with \<open>UnicodeDecodeError\<close>, which is not an \<open>IOError\<close>.
\<close>

definition read_text :: "'v filesystem \<Rightarrow> string \<Rightarrow> py_error + string" where
  "read_text fs p =
     (case files fs p of
        None \<Rightarrow> Inl IOError
      | Some Directory \<Rightarrow> Inl IOError
      | Some (Pickle d) \<Rightarrow> Inl UnicodeDecodeError
      | Some (Text s) \<Rightarrow> Inr (universal_newlines s))"

text \<open>\<open>torch.save(data, p)\<close> and \<open>torch.load(p)\<close>.\<close>

definition torch_save :: "'v filesystem \<Rightarrow> (string \<rightharpoonup> 'v) \<Rightarrow> string \<Rightarrow> py_error option \<times> 'v filesystem" where
  "torch_save fs data p =
     (if can_open_w fs p then (None, fs\<lparr>files := (files fs)(p \<mapsto> Pickle data)\<rparr>)
      else (Some IOError, fs))"

definition torch_load :: "'v filesystem \<Rightarrow> string \<Rightarrow> py_error + (string \<rightharpoonup> 'v)" where
  "torch_load fs p =
     (case files fs p of
        None \<Rightarrow> Inl IOError
      | Some Directory \<Rightarrow> Inl IOError
      | Some (Text s) \<Rightarrow> Inl UnpicklingError
      | Some (Pickle d) \<Rightarrow> Inr d)"

section \<open>\<open>shaper/utils/checkpoint.py\<close>: the Checkpointer\<close>

text \<open>
  The model, the optimizer and the scheduler are represented by their state
  dictionaries (a value of type \<open>'v\<close>): \<open>state_dict()\<close> reads the field and
  \<open>load_state_dict(s)\<close> replaces it; that \<open>load_state_dict\<close> rejects a state of the
  wrong shape is not modelled. An optimizer or a scheduler that was not given is
  \<open>None\<close>; one that was given is truthy. The logger has no effect on the results and
  is left out.
\<close>

record 'v checkpointer =
  model :: 'v
  optimizer :: "'v option"
  scheduler :: "'v option"
  save_dir :: string

text \<open>\<open>Checkpointer.tag_last_checkpoint(last_filename, tag_file)\<close>\<close>

definition tag_last_checkpoint ::
  "'v checkpointer \<Rightarrow> 'v filesystem \<Rightarrow> string \<Rightarrow> string \<Rightarrow> py_error option \<times> 'v filesystem" where
  "tag_last_checkpoint self fs last_filename tag_file =
     (let save_file = path_join (save_dir self) tag_file;
          last_filename' = (if \<not> isabs last_filename then basename last_filename else last_filename)
      in write_text fs save_file last_filename')"

text \<open>
  \<open>Checkpointer.save(name, tag_file, **kwargs)\<close>. \<open>checkpoint_data\<close> is the dictionary
  \<open>data\<close> that \<open>save\<close> builds before it writes: the model's state, the optimizer's
  and the scheduler's when they are not \<open>None\<close>, then \<open>data.update(kwargs)\<close>.
\<close>

definition checkpoint_data :: "'v checkpointer \<Rightarrow> (string \<rightharpoonup> 'v) \<Rightarrow> (string \<rightharpoonup> 'v)" where
  "checkpoint_data self kwargs =
     (let data0 = [''model'' \<mapsto> model self];
          data1 = (case optimizer self of None \<Rightarrow> data0 | Some st \<Rightarrow> data0(''optimizer'' \<mapsto> st));
          data2 = (case scheduler self of None \<Rightarrow> data1 | Some st \<Rightarrow> data1(''scheduler'' \<mapsto> st))
      in data2 ++ kwargs)"

definition save ::
  "'v checkpointer \<Rightarrow> 'v filesystem \<Rightarrow> string \<Rightarrow> string \<Rightarrow> (string \<rightharpoonup> 'v) \<Rightarrow>
     py_error option \<times> 'v filesystem" where
  "save self fs name tag_file kwargs =
     (if save_dir self = [] then (None, fs)
      else
        let data = checkpoint_data self kwargs;
            save_file = path_join (save_dir self) (name @ ''.pth'')
        in case torch_save fs data save_file of
             (Some e, fs1) \<Rightarrow> (Some e, fs1)
           | (None, fs1) \<Rightarrow> tag_last_checkpoint self fs1 save_file tag_file)"

text \<open>\<open>Checkpointer.has_checkpoint(tag_file)\<close>\<close>

definition has_checkpoint :: "'v checkpointer \<Rightarrow> 'v filesystem \<Rightarrow> string \<Rightarrow> bool" where
  "has_checkpoint self fs tag_file = path_exists fs (path_join (save_dir self) tag_file)"

text \<open>
  \<open>Checkpointer.get_checkpoint_file(tag_file)\<close>: an \<open>IOError\<close> is caught and gives the
  empty string; any other exception propagates.
\<close>

definition get_checkpoint_file :: "'v checkpointer \<Rightarrow> 'v filesystem \<Rightarrow> string \<Rightarrow> py_error + string" where
  "get_checkpoint_file self fs tag_file =
     (let save_file = path_join (save_dir self) tag_file
      in case read_text fs save_file of
           Inl e \<Rightarrow> (if e = IOError then Inr [] else Inl e)
         | Inr content \<Rightarrow>
             (let last_saved = strip content
              in Inr (if \<not> isabs last_saved then path_join (save_dir self) last_saved
                      else last_saved)))"

text \<open>
  \<open>Checkpointer.load(f, resume, tag_file)\<close>. The argument \<open>f\<close> is \<open>None\<close> or a string.
  The result is the checkpointer after the call and the dictionary returned.
\<close>

definition load ::
  "'v checkpointer \<Rightarrow> 'v filesystem \<Rightarrow> string option \<Rightarrow> bool \<Rightarrow> string \<Rightarrow>
     py_error + ('v checkpointer \<times> (string \<rightharpoonup> 'v))" where
  "load self fs f resume tag_file =
     (case (if resume \<and> has_checkpoint self fs tag_file
            then (case get_checkpoint_file self fs tag_file of
                    Inl e \<Rightarrow> Inl e | Inr p \<Rightarrow> Inr (Some p))
            else Inr f) of
        Inl e \<Rightarrow> Inl e
      | Inr None \<Rightarrow> Inr (self, Map.empty)
      | Inr (Some p) \<Rightarrow>
          if p = [] then Inr (self, Map.empty)
          else
            (case torch_load fs p of
               Inl e \<Rightarrow> Inl e
             | Inr checkpoint \<Rightarrow>
                 (case checkpoint ''model'' of
                    None \<Rightarrow> Inl KeyError
                  | Some m \<Rightarrow>
                      (let self1 = self\<lparr>model := m\<rparr>;
                           checkpoint1 = checkpoint(''model'' := None);
                           (self2, checkpoint2) =
                             (case (checkpoint1 ''optimizer'', optimizer self1) of
                                (Some st, Some old) \<Rightarrow>
                                  (self1\<lparr>optimizer := Some st\<rparr>, checkpoint1(''optimizer'' := None))
                              | _ \<Rightarrow> (self1, checkpoint1));
                           (self3, checkpoint3) =
                             (case (checkpoint2 ''scheduler'', scheduler self2) of
                                (Some st, Some old) \<Rightarrow>
                                  (self2\<lparr>scheduler := Some st\<rparr>, checkpoint2(''scheduler'' := None))
                              | _ \<Rightarrow> (self2, checkpoint2))
                       in Inr (self3, checkpoint3)))))"

text \<open>
  A name that reading the pointer file gives back unchanged: it holds no carriage
  return, and neither begins nor ends with whitespace.
\<close>

definition plain_name :: "string \<Rightarrow> bool" where
  "plain_name s =
     (CHR 0x0D \<notin> set s \<and> (s = [] \<or> (\<not> is_space (hd s) \<and> \<not> is_space (last s))))"

section \<open>Concrete checkpointers and directories\<close>

text \<open>
  The inputs at which the theorems below are instantiated: a directory in which
  every path can be written and nothing exists yet, checkpointers saving into
  \<open>out\<close> with and without an optimizer and a scheduler, a checkpointer with no
  \<open>save_dir\<close>, and a directory that holds one checkpoint and the pointer to it, a line that
  ends with a newline.
\<close>

definition empty_dir :: "nat filesystem" where
  "empty_dir = \<lparr>files = Map.empty, writable = (\<lambda>p. True)\<rparr>"

definition ckpt_model_only :: "nat checkpointer" where
  "ckpt_model_only = \<lparr>model = 7, optimizer = None, scheduler = None, save_dir = ''out''\<rparr>"

definition ckpt_full :: "nat checkpointer" where
  "ckpt_full = \<lparr>model = 7, optimizer = Some 8, scheduler = Some 9, save_dir = ''out''\<rparr>"

definition ckpt_no_dir :: "nat checkpointer" where
  "ckpt_no_dir = \<lparr>model = 7, optimizer = Some 8, scheduler = Some 9, save_dir = ''''\<rparr>"

definition saved_dir :: "nat filesystem" where
  "saved_dir =
     \<lparr>files = [''out/last_checkpoint'' \<mapsto> Text ''model_001.pth\<newline>'',
               ''out/model_001.pth'' \<mapsto> Pickle [''model'' \<mapsto> 1, ''optimizer'' \<mapsto> 2, ''epoch'' \<mapsto> 3]],
      writable = (\<lambda>p. True)\<rparr>"

section \<open>\<open>shaper/config/defaults.py\<close>: the configuration\<close>

text \<open>
  An entry of \<open>cfg.TRAIN.AUGMENTATION\<close> or \<open>cfg.TEST.AUGMENTATION\<close>: the name of a
  transform, or a tuple of a name and the arguments to call it with.
\<close>

datatype 'a aug = Aug string | AugCall string "'a list"

text \<open>
  The keys of the configuration node that the modelled functions read. The defaults
  declare all of them but \<open>TEST.AUGMENTATION\<close> and \<open>DATALOADER.DROP_LAST\<close>, which are
  therefore optional here: reading a key that a configuration node does not have
  raises \<open>AttributeError\<close>.
\<close>

record 'a cfg =
  MODEL_TYPE :: string
  INPUT_NUM_POINTS :: int
  DATASET_TYPE :: string
  DATASET_ROOT_DIR :: string
  DATASET_TRAIN :: "string list"
  DATASET_VAL :: "string list"
  DATASET_TEST :: "string list"
  TRAIN_BATCH_SIZE :: int
  TRAIN_AUGMENTATION :: "'a aug list"
  TEST_BATCH_SIZE :: int
  TEST_AUGMENTATION :: "'a aug list option"
  DATALOADER_NUM_WORKERS :: int
  DATALOADER_DROP_LAST :: "bool option"

text \<open>The configuration with the values \<open>defaults.py\<close> gives these keys.\<close>

definition default_cfg :: "nat cfg" where
  "default_cfg =
     \<lparr>MODEL_TYPE = '''', INPUT_NUM_POINTS = - 1, DATASET_TYPE = '''', DATASET_ROOT_DIR = '''',
      DATASET_TRAIN = [], DATASET_VAL = [], DATASET_TEST = [],
      TRAIN_BATCH_SIZE = 32, TRAIN_AUGMENTATION = [], TEST_BATCH_SIZE = 32,
      TEST_AUGMENTATION = None, DATALOADER_NUM_WORKERS = 4, DATALOADER_DROP_LAST = None\<rparr>"

section \<open>\<open>shaper/models/build.py\<close>: the registry of model builders\<close>

text \<open>
  A builder takes the configuration and returns the model (with its loss and metric)
  or raises. The six builders the module imports are parameters of the initial
  registry; the registry itself is the state that \<open>register_model_builder\<close> changes.
\<close>

type_synonym ('a, 'm) builder = "'a cfg \<Rightarrow> py_error + 'm"

type_synonym ('a, 'm) registry = "string \<rightharpoonup> ('a, 'm) builder"

definition MODEL_BUILDERS ::
  "('a, 'm) builder \<Rightarrow> ('a, 'm) builder \<Rightarrow> ('a, 'm) builder \<Rightarrow> ('a, 'm) builder \<Rightarrow>
   ('a, 'm) builder \<Rightarrow> ('a, 'm) builder \<Rightarrow> ('a, 'm) registry" where
  "MODEL_BUILDERS build_pointnet build_dgcnn build_pointnet2ssg build_pointnet2msg
       build_pns2cnn build_s2cnn =
     [''POINTNET'' \<mapsto> build_pointnet,
      ''DGCNN'' \<mapsto> build_dgcnn,
      ''PN2SSG'' \<mapsto> build_pointnet2ssg,
      ''PN2MSG'' \<mapsto> build_pointnet2msg,
      ''PNS2CNN'' \<mapsto> build_pns2cnn,
      ''S2CNN'' \<mapsto> build_s2cnn]"

text \<open>\<open>build_model(cfg)\<close>: a missing key of the dictionary raises \<open>KeyError\<close>.\<close>

definition build_model :: "('a, 'm) registry \<Rightarrow> 'a cfg \<Rightarrow> py_error + 'm" where
  "build_model registry cfg =
     (case registry (MODEL_TYPE cfg) of
        None \<Rightarrow> Inl KeyError
      | Some builder \<Rightarrow> builder cfg)"

text \<open>
  \<open>register_model_builder(name, builder)\<close>: the exception raised, if any, and the
  registry afterwards.
\<close>

definition register_model_builder ::
  "('a, 'm) registry \<Rightarrow> string \<Rightarrow> ('a, 'm) builder \<Rightarrow> py_error option \<times> ('a, 'm) registry" where
  "register_model_builder registry name builder =
     (case registry name of
        Some present \<Rightarrow> (Some KeyError, registry)
      | None \<Rightarrow> (None, registry(name \<mapsto> builder)))"

section \<open>\<open>shaper/data/build.py\<close>: transforms, datasets and data loaders\<close>

text \<open>
  The transform module \<open>T\<close>, the dataset classes \<open>D\<close> and the library's \<open>DataLoader\<close>
  are not part of the modelled files and are parameters. \<open>T_getattr\<close> is \<open>getattr(T, name)\<close>:
  \<open>None\<close> when the module has no such attribute, otherwise the class, called with its
  positional arguments. A dataset class is called with the keyword arguments of
  \<open>dataset_args\<close>, the \<open>DataLoader\<close> with those of \<open>dataloader_args\<close>; each call may raise.
\<close>

record ('a, 't) transform_module =
  T_getattr :: "string \<Rightarrow> ('a list \<Rightarrow> py_error + 't) option"
  T_Compose :: "'t list \<Rightarrow> 't"

record 't dataset_args =
  arg_root_dir :: string
  arg_dataset_names :: "string list"
  arg_shuffle_points :: bool
  arg_num_points :: int
  arg_transform :: 't

record ('t, 'd) datasets_module =
  D_ModelNetH5 :: "'t dataset_args \<Rightarrow> py_error + 'd"
  D_ShapeNetH5 :: "'t dataset_args \<Rightarrow> py_error + 'd"
  D_KITTI :: "'t dataset_args \<Rightarrow> py_error + 'd"

record 'd dataloader_args =
  arg_dataset :: 'd
  arg_batch_size :: int
  arg_shuffle :: bool
  arg_drop_last :: bool
  arg_num_workers :: int

text \<open>\<open>getattr(T, name)(*args)\<close>\<close>

definition call_T :: "('a, 't) transform_module \<Rightarrow> string \<Rightarrow> 'a list \<Rightarrow> py_error + 't" where
  "call_T T name args =
     (case T_getattr T name of None \<Rightarrow> Inl AttributeError | Some cls \<Rightarrow> cls args)"

text \<open>The loop over the augmentations, appending to \<open>transform_list\<close>.\<close>

fun append_augmentations ::
  "('a, 't) transform_module \<Rightarrow> 'a aug list \<Rightarrow> 't list \<Rightarrow> py_error + 't list" where
  "append_augmentations T [] transform_list = Inr transform_list"
| "append_augmentations T (Aug name # augs) transform_list =
     (case call_T T name [] of
        Inl e \<Rightarrow> Inl e
      | Inr t \<Rightarrow> append_augmentations T augs (transform_list @ [t]))"
| "append_augmentations T (AugCall name args # augs) transform_list =
     (case call_T T name args of
        Inl e \<Rightarrow> Inl e
      | Inr t \<Rightarrow> append_augmentations T augs (transform_list @ [t]))"

text \<open>\<open>build_transform(cfg, is_train)\<close>\<close>

definition build_transform :: "('a, 't) transform_module \<Rightarrow> 'a cfg \<Rightarrow> bool \<Rightarrow> py_error + 't" where
  "build_transform T cfg is_train =
     (case call_T T ''PointCloudToTensor'' [] of
        Inl e \<Rightarrow> Inl e
      | Inr to_tensor \<Rightarrow>
          (case (if is_train then Inr (TRAIN_AUGMENTATION cfg)
                 else (case TEST_AUGMENTATION cfg of
                         None \<Rightarrow> Inl AttributeError | Some augs \<Rightarrow> Inr augs)) of
             Inl e \<Rightarrow> Inl e
           | Inr augs \<Rightarrow>
               (case append_augmentations T augs [to_tensor] of
                  Inl e \<Rightarrow> Inl e
                | Inr transform_list \<Rightarrow>
                    (case call_T T ''PointCloudTensorTranspose'' [] of
                       Inl e \<Rightarrow> Inl e
                     | Inr to_transpose \<Rightarrow> Inr (T_Compose T (transform_list @ [to_transpose]))))))"

text \<open>\<open>build_dataset(cfg, mode)\<close>\<close>

definition build_dataset ::
  "('a, 't) transform_module \<Rightarrow> ('t, 'd) datasets_module \<Rightarrow> 'a cfg \<Rightarrow> string \<Rightarrow> py_error + 'd" where
  "build_dataset T D cfg mode =
     (let dataset_names =
            (if mode = ''train'' then DATASET_TRAIN cfg
             else if mode = ''val'' then DATASET_VAL cfg
             else DATASET_TEST cfg);
          is_train = (mode = ''train'')
      in case build_transform T cfg is_train of
           Inl e \<Rightarrow> Inl e
         | Inr transform \<Rightarrow>
             (let args = \<lparr>arg_root_dir = DATASET_ROOT_DIR cfg,
                          arg_dataset_names = dataset_names,
                          arg_shuffle_points = False,
                          arg_num_points = INPUT_NUM_POINTS cfg,
                          arg_transform = transform\<rparr>
              in if DATASET_TYPE cfg = ''ModelNetH5'' then D_ModelNetH5 D args
                 else if DATASET_TYPE cfg = ''ShapeNetH5'' then D_ShapeNetH5 D args
                 else if DATASET_TYPE cfg = ''KITTI'' then D_KITTI D args
                 else Inl NotImplementedError))"

text \<open>
  \<open>build_dataloader(cfg, mode)\<close>. \<open>is_train and cfg.DATALOADER.DROP_LAST\<close> reads the key
  only when \<open>is_train\<close> holds.
\<close>

definition build_dataloader ::
  "('a, 't) transform_module \<Rightarrow> ('t, 'd) datasets_module \<Rightarrow> ('d dataloader_args \<Rightarrow> py_error + 'l) \<Rightarrow>
     'a cfg \<Rightarrow> string \<Rightarrow> py_error + 'l" where
  "build_dataloader T D DataLoader cfg mode =
     (if mode \<notin> set [''train'', ''val'', ''test''] then Inl AssertionError
      else
        let batch_size = (if mode = ''train'' then TRAIN_BATCH_SIZE cfg else TEST_BATCH_SIZE cfg);
            is_train = (mode = ''train'')
        in case build_dataset T D cfg mode of
             Inl e \<Rightarrow> Inl e
           | Inr dataset \<Rightarrow>
               (case (if is_train
                      then (case DATALOADER_DROP_LAST cfg of
                              None \<Rightarrow> Inl AttributeError | Some b \<Rightarrow> Inr b)
                      else Inr False) of
                  Inl e \<Rightarrow> Inl e
                | Inr drop_last \<Rightarrow>
                    DataLoader \<lparr>arg_dataset = dataset,
                                arg_batch_size = batch_size,
                                arg_shuffle = is_train,
                                arg_drop_last = drop_last,
                                arg_num_workers = DATALOADER_NUM_WORKERS cfg\<rparr>))"

text \<open>
  Concrete modules for the instances below: every transform class exists and builds a
  transform named after it, \<open>Compose\<close> lists the names, each dataset class returns its
  name with its arguments, and the \<open>DataLoader\<close> returns its arguments.
\<close>

definition example_T :: "(nat, string list) transform_module" where
  "example_T = \<lparr>T_getattr = (\<lambda>name. Some (\<lambda>args. Inr [name])), T_Compose = concat\<rparr>"

definition example_D :: "(string list, string \<times> string list dataset_args) datasets_module" where
  "example_D =
     \<lparr>D_ModelNetH5 = (\<lambda>args. Inr (''ModelNetH5'', args)),
      D_ShapeNetH5 = (\<lambda>args. Inr (''ShapeNetH5'', args)),
      D_KITTI = (\<lambda>args. Inr (''KITTI'', args))\<rparr>"

definition example_DataLoader ::
  "(string \<times> string list dataset_args) dataloader_args \<Rightarrow>
     py_error + (string \<times> string list dataset_args) dataloader_args" where
  "example_DataLoader args = Inr args"

definition modelnet_cfg :: "nat cfg" where
  "modelnet_cfg =
     default_cfg\<lparr>DATASET_TYPE := ''ModelNetH5'', DATASET_TRAIN := [''train''],
                 DATASET_TEST := [''test''], TEST_AUGMENTATION := Some [],
                 DATALOADER_DROP_LAST := Some True\<rparr>"

text \<open>
  A registry whose six builders each return the name of the model they build.
\<close>

definition example_registry :: "(nat, string) registry" where
  "example_registry =
     MODEL_BUILDERS (\<lambda>cfg. Inr ''PointNetCls'') (\<lambda>cfg. Inr ''DGCNNCls'') (\<lambda>cfg. Inr ''PointNet2SSGCls'')
       (\<lambda>cfg. Inr ''PointNet2MSGCls'') (\<lambda>cfg. Inr ''PNS2CNNCls'') (\<lambda>cfg. Inr ''S2CNNCls'')"

section \<open>\<open>shaper/models/metric.py\<close>: classification accuracy\<close>

text \<open>
  A logit is a value of a linearly ordered type: the floating-point scores without
  NaN, of which only the order is used. \<open>cls_logit\<close> is the list of the samples' rows
  of per-class scores, \<open>cls_label\<close> the list of integer labels.

  \<open>argmax\<close> is the index of the first greatest element of a row, the one
  \<open>tensor.argmax\<close> returns. \<open>argmax_from best best_index next xs\<close> scans the rest \<open>xs\<close>
  of the row, whose first element has index \<open>next\<close>.
\<close>

fun argmax_from :: "'a::linorder \<Rightarrow> nat \<Rightarrow> nat \<Rightarrow> 'a list \<Rightarrow> nat" where
  "argmax_from best best_index next [] = best_index"
| "argmax_from best best_index next (x # xs) =
     (if best < x then argmax_from x next (Suc next) xs
      else argmax_from best best_index (Suc next) xs)"

definition argmax :: "'a::linorder list \<Rightarrow> nat" where
  "argmax row = (case row of [] \<Rightarrow> 0 | x # xs \<Rightarrow> argmax_from x 0 1 xs)"

text \<open>\<open>cls_logit.argmax(1)\<close>: a reduction over no classes raises.\<close>

definition argmax_dim1 :: "'a::linorder list list \<Rightarrow> py_error + nat list" where
  "argmax_dim1 rows = (if [] \<in> set rows then Inl IndexError else Inr (map argmax rows))"

text \<open>
  \<open>a.eq(b)\<close> on one-dimensional tensors: elementwise for equal lengths, a tensor of
  length one is broadcast, any other pair of lengths raises.
\<close>

definition tensor_eq :: "int list \<Rightarrow> int list \<Rightarrow> py_error + bool list" where
  "tensor_eq a b =
     (if length a = length b then Inr (map2 (\<lambda>x y. x = y) a b)
      else if length b = 1 then Inr (map (\<lambda>x. x = hd b) a)
      else if length a = 1 then Inr (map (\<lambda>y. hd a = y) b)
      else Inl RuntimeError)"

text \<open>\<open>t.float()\<close> on a tensor of booleans.\<close>

definition to_float :: "bool list \<Rightarrow> real list" where
  "to_float bs = map (\<lambda>b. if b then 1 else 0) bs"

text \<open>\<open>ClsAccuracy.forward(preds, labels)\<close>\<close>

definition ClsAccuracy_forward ::
  "(string \<rightharpoonup> 'a::linorder list list) \<Rightarrow> (string \<rightharpoonup> int list) \<Rightarrow> py_error + (string \<rightharpoonup> real list)" where
  "ClsAccuracy_forward preds labels =
     (case preds ''cls_logit'' of
        None \<Rightarrow> Inl KeyError
      | Some cls_logit \<Rightarrow>
          (case labels ''cls_label'' of
             None \<Rightarrow> Inl KeyError
           | Some cls_label \<Rightarrow>
               (case argmax_dim1 cls_logit of
                  Inl e \<Rightarrow> Inl e
                | Inr pred_label \<Rightarrow>
                    (case tensor_eq (map int pred_label) cls_label of
                       Inl e \<Rightarrow> Inl e
                     | Inr cls_acc \<Rightarrow> Inr [''cls_acc'' \<mapsto> to_float cls_acc]))))"

section \<open>\<open>shaper_few_shot/data/datasets/shapenet_fewshot.py\<close>: the few-shot dataset\<close>

text \<open>
  \<open>xs[i]\<close> on a Python list: a negative index counts from the end, an index out of
  range raises \<open>IndexError\<close>.
\<close>

definition py_index :: "'x list \<Rightarrow> int \<Rightarrow> py_error + 'x" where
  "py_index xs i =
     (let n = int (length xs); j = (if i < 0 then n + i else i)
      in if 0 \<le> j \<and> j < n then Inr (xs ! nat j) else Inl IndexError)"

text \<open>
  The random generator is the stream of its future draws. \<open>np.random.permutation\<close>
  uses one draw for each element: \<open>permute n draws xs\<close> picks, \<open>n\<close> times, the element
  of what is left that the next draw selects. Every permutation is the result of some
  draws, and every result is a permutation.
\<close>

primrec permute :: "nat \<Rightarrow> (nat \<Rightarrow> nat) \<Rightarrow> 'x list \<Rightarrow> 'x list" where
  "permute 0 draws xs = []"
| "permute (Suc n) draws xs =
     (let k = draws 0 mod length xs
      in xs ! k # permute n (\<lambda>i. draws (Suc i)) (take k xs @ drop (Suc k) xs))"

definition random_permutation :: "(nat \<Rightarrow> nat) \<Rightarrow> 'x list \<Rightarrow> 'x list \<times> (nat \<Rightarrow> nat)" where
  "random_permutation draws xs = (permute (length xs) draws xs, (\<lambda>i. draws (i + length xs)))"

text \<open>
  The fields of the dataset that \<open>__getitem__\<close> reads. A point is a value of type
  \<open>'p\<close>, a point cloud the list of its rows.
\<close>

record meta =
  token :: string
  class_name :: string
  pts_path :: string

record 'p ShapeNetFewShot =
  meta_data :: "meta list"
  classes_to_ind_map :: "string \<rightharpoonup> nat"
  num_points :: int
  shuffle_points :: bool
  transform :: "('p list \<Rightarrow> 'p list) option"

record 'p item =
  points :: "'p list"
  cls_labels :: nat

text \<open>
  \<open>ShapeNetFewShot.__getitem__(index)\<close>. \<open>load_pts\<close> is \<open>_load_pts\<close>, which reads the
  point file and may raise. The result is the item and the generator afterwards.
  Every index in \<open>choice\<close> is below \<open>len(points)\<close>, so \<open>points[choice]\<close> does not raise.
\<close>

definition getitem ::
  "'p ShapeNetFewShot \<Rightarrow> (string \<Rightarrow> py_error + 'p list) \<Rightarrow> (nat \<Rightarrow> nat) \<Rightarrow> int \<Rightarrow>
     py_error + ('p item \<times> (nat \<Rightarrow> nat))" where
  "getitem self load_pts rng index =
     (case py_index (meta_data self) index of
        Inl e \<Rightarrow> Inl e
      | Inr md \<Rightarrow>
          (case classes_to_ind_map self (class_name md) of
             None \<Rightarrow> Inl KeyError
           | Some class_ind \<Rightarrow>
               (case load_pts (pts_path md) of
                  Inl e \<Rightarrow> Inl e
                | Inr pts \<Rightarrow>
                    (let (choice, rng1) =
                           (if shuffle_points self then random_permutation rng [0..<length pts]
                            else ([0..<length pts], rng));
                         (choice', rng2) =
                           (if num_points self > 0 then
                              (if int (length pts) \<ge> num_points self
                               then (take (nat (num_points self)) choice, rng1)
                               else
                                 (let num_pad = nat (num_points self - int (length pts));
                                      (shuffled, rng') = random_permutation rng1 choice;
                                      pad = take num_pad shuffled
                                  in (choice @ pad, rng')))
                            else (choice, rng1));
                         pts' = map (\<lambda>i. pts ! i) choice';
                         pts'' = (case transform self of None \<Rightarrow> pts' | Some t \<Rightarrow> t pts')
                     in Inr (\<lparr>points = pts'', cls_labels = class_ind\<rparr>, rng2)))))"

text \<open>
  The indices that \<open>__getitem__\<close> starts from, before it crops or pads: a random
  permutation of \<open>0 .. len(points) - 1\<close> when \<open>shuffle_points\<close> holds, these numbers in
  order otherwise.
\<close>

definition chosen :: "'p ShapeNetFewShot \<Rightarrow> (nat \<Rightarrow> nat) \<Rightarrow> nat \<Rightarrow> nat list" where
  "chosen self rng n =
     (if shuffle_points self then fst (random_permutation rng [0..<n]) else [0..<n])"

text \<open>
  Datasets of one model, of class \<open>Chair\<close>: one that asks for five points of a
  file of three; one that asks for four points of a file of four and transposes the
  array, as the transform that \<open>build_transform\<close> composes ends by doing; and one that
  asks for five points of a file of two.
\<close>

definition chair_meta :: "meta list" where
  "chair_meta = [\<lparr>token = ''a1'', class_name = ''Chair'', pts_path = ''03001627/points/a1.pts''\<rparr>]"

definition three_point_dataset :: "nat ShapeNetFewShot" where
  "three_point_dataset =
     \<lparr>meta_data = chair_meta, classes_to_ind_map = [''Chair'' \<mapsto> 0],
      num_points = 5, shuffle_points = False, transform = None\<rparr>"

definition three_point_file :: "string \<Rightarrow> py_error + nat list" where
  "three_point_file path =
     (if path = ''03001627/points/a1.pts'' then Inr [10, 20, 30] else Inl IOError)"

definition transposing_dataset :: "nat list ShapeNetFewShot" where
  "transposing_dataset =
     \<lparr>meta_data = chair_meta, classes_to_ind_map = [''Chair'' \<mapsto> 0],
      num_points = 4, shuffle_points = False, transform = Some transpose\<rparr>"

definition four_point_file :: "string \<Rightarrow> py_error + nat list list" where
  "four_point_file path =
     (if path = ''03001627/points/a1.pts''
      then Inr [[1, 2, 3], [4, 5, 6], [7, 8, 9], [10, 11, 12]] else Inl IOError)"

definition two_point_dataset :: "nat ShapeNetFewShot" where
  "two_point_dataset =
     \<lparr>meta_data = chair_meta, classes_to_ind_map = [''Chair'' \<mapsto> 0],
      num_points = 5, shuffle_points = False, transform = None\<rparr>"

definition two_point_file :: "string \<Rightarrow> py_error + nat list" where
  "two_point_file path =
     (if path = ''03001627/points/a1.pts'' then Inr [41, 42] else Inl IOError)"

section \<open>Properties of the path and string functions\<close>

lemma universal_newlines_id: "CHR 0x0D \<notin> set s \<Longrightarrow> universal_newlines s = s"
  by (induction s rule: universal_newlines.induct) auto

lemma dropWhile_hd_id: "xs = [] \<or> \<not> P (hd xs) \<Longrightarrow> dropWhile P xs = xs"
  by (cases xs) auto

lemma strip_id:
  assumes "s = [] \<or> (\<not> is_space (hd s) \<and> \<not> is_space (last s))"
  shows "strip s = s"
proof (cases "s = []")
  case True
  then show ?thesis by (simp add: strip_def)
next
  case False
  with assms have h: "\<not> is_space (hd s)" and l: "\<not> is_space (last s)" by auto
  have "dropWhile is_space s = s" using h by (simp add: dropWhile_hd_id)
  moreover have "dropWhile is_space (rev s) = rev s"
    using l False by (simp add: dropWhile_hd_id hd_rev)
  ultimately show ?thesis by (simp add: strip_def)
qed

lemma read_back_plain: "plain_name s \<Longrightarrow> strip (universal_newlines s) = s"
  by (simp add: plain_name_def universal_newlines_id strip_id)

lemma isabs_path_join: "isabs (path_join a b) = (isabs a \<or> isabs b)"
  by (cases a; cases b) (auto simp: path_join_def isabs_def)

lemma takeWhile_rev_sep:
  "a = [] \<or> last a = CHR ''/'' \<Longrightarrow> takeWhile (\<lambda>c. c \<noteq> CHR ''/'') (rev a) = []"
  by (cases a rule: rev_cases) auto

lemma basename_append:
  assumes "CHR ''/'' \<notin> set b" and "a = [] \<or> last a = CHR ''/''"
  shows "basename (a @ b) = b"
proof -
  have "takeWhile (\<lambda>c. c \<noteq> CHR ''/'') (rev b @ rev a) =
          rev b @ takeWhile (\<lambda>c. c \<noteq> CHR ''/'') (rev a)"
    using assms(1) by (intro takeWhile_append2) auto
  then show ?thesis using takeWhile_rev_sep[OF assms(2)] by (simp add: basename_def)
qed

lemma basename_path_join:
  assumes "CHR ''/'' \<notin> set b"
  shows "basename (path_join a b) = b"
proof -
  have nb: "\<not> isabs b" using assms by (cases b) (auto simp: isabs_def)
  show ?thesis
  proof (cases "a = [] \<or> last a = CHR ''/''")
    case True
    then show ?thesis using nb basename_append[OF assms True] by (simp add: path_join_def)
  next
    case False
    have "basename ((a @ ''/'') @ b) = b" by (rule basename_append[OF assms]) simp
    then show ?thesis using nb False by (simp add: path_join_def)
  qed
qed

lemma isabs_basename: "\<not> isabs (basename p)"
proof -
  have "CHR ''/'' \<notin> set (basename p)"
    unfolding basename_def using set_takeWhileD by fastforce
  then show ?thesis by (cases "basename p") (auto simp: isabs_def)
qed

lemma last_path_join: "b \<noteq> [] \<Longrightarrow> last (path_join a b) = last b"
  by (simp add: path_join_def)

lemma hd_path_join_abs: "isabs a \<Longrightarrow> \<not> isabs b \<Longrightarrow> hd (path_join a b) = CHR ''/''"
  by (cases a) (auto simp: path_join_def isabs_def)

lemma set_path_join: "set (path_join a b) \<subseteq> set a \<union> set b \<union> {CHR ''/''}"
  by (auto simp: path_join_def)

lemma not_space_simps:
  "\<not> is_space (CHR ''/'')" "\<not> is_space (CHR ''h'')" "\<not> is_space (CHR ''.'')"
  by (simp_all add: is_space_def)

lemma stored_name_resolves:
  assumes sd: "sd \<noteq> []"
    and slash: "CHR ''/'' \<notin> set name"
    and cr: "CHR 0x0D \<notin> set name" "CHR 0x0D \<notin> set sd"
    and sp: "name = [] \<or> \<not> is_space (hd name)"
  defines "sf \<equiv> path_join sd (name @ ''.pth'')"
  defines "stored \<equiv> (if isabs sf then sf else basename sf)"
  shows "plain_name stored \<and> (if isabs stored then stored else path_join sd stored) = sf"
proof -
  have nb: "\<not> isabs (name @ ''.pth'')"
    using slash by (cases name) (auto simp: isabs_def)
  have abs_sf: "isabs sf = isabs sd"
    using nb by (simp add: sf_def isabs_path_join)
  have cr_sf: "CHR 0x0D \<notin> set sf"
    using cr set_path_join[of sd "name @ ''.pth''"] by (auto simp: sf_def)
  have last_sf: "last sf = CHR ''h''"
    by (simp add: sf_def last_path_join)
  have sf_ne: "sf \<noteq> []"
    by (auto simp: sf_def path_join_def)
  show ?thesis
  proof (cases "isabs sd")
    case True
    then have st: "stored = sf" by (simp add: stored_def abs_sf)
    have "hd sf = CHR ''/''"
      using True nb by (simp add: sf_def hd_path_join_abs)
    then have "plain_name sf"
      using cr_sf last_sf by (simp add: plain_name_def not_space_simps)
    then show ?thesis using st True abs_sf by simp
  next
    case False
    have "stored = basename sf"
      using False abs_sf by (simp add: stored_def)
    also have "\<dots> = name @ ''.pth''"
      using slash by (simp add: sf_def basename_path_join)
    finally have st: "stored = name @ ''.pth''" .
    have "\<not> is_space (hd (name @ ''.pth''))"
      using sp by (cases name) (auto simp: not_space_simps)
    then have "plain_name (name @ ''.pth'')"
      using cr(1) by (simp add: plain_name_def not_space_simps)
    then show ?thesis using st nb by (simp add: sf_def)
  qed
qed

lemma tag_differs_from_checkpoint:
  "path_join sd ''last_checkpoint'' \<noteq> path_join sd (name @ ''.pth'')"
proof
  assume "path_join sd ''last_checkpoint'' = path_join sd (name @ ''.pth'')"
  then have "last (path_join sd ''last_checkpoint'') = last (path_join sd (name @ ''.pth''))"
    by simp
  then show False by (simp add: last_path_join)
qed

section \<open>Properties of the file system\<close>

lemma read_text_after_write:
  "can_open_w fs p \<Longrightarrow> read_text (snd (write_text fs p s)) p = Inr (universal_newlines s)"
  by (simp add: write_text_def read_text_def)

section \<open>Properties of the Checkpointer\<close>

lemma get_checkpoint_file_text:
  assumes "files fs (path_join (save_dir self) tag_file) = Some (Text s)"
  shows "get_checkpoint_file self fs tag_file =
           Inr (if isabs (strip (universal_newlines s)) then strip (universal_newlines s)
                else path_join (save_dir self) (strip (universal_newlines s)))"
  using assms by (simp add: get_checkpoint_file_def read_text_def Let_def)

lemma save_result:
  assumes sd: "save_dir self \<noteq> []"
    and w1: "can_open_w fs (path_join (save_dir self) (name @ ''.pth''))"
    and w2: "can_open_w fs (path_join (save_dir self) tag_file)"
  shows "save self fs name tag_file kwargs =
           (None, fs\<lparr>files := (files fs)
              (path_join (save_dir self) (name @ ''.pth'') \<mapsto> Pickle (checkpoint_data self kwargs),
               path_join (save_dir self) tag_file \<mapsto>
                 Text (if isabs (path_join (save_dir self) (name @ ''.pth''))
                       then path_join (save_dir self) (name @ ''.pth'')
                       else basename (path_join (save_dir self) (name @ ''.pth''))))\<rparr>)"
proof -
  define sf where "sf = path_join (save_dir self) (name @ ''.pth'')"
  define tag where "tag = path_join (save_dir self) tag_file"
  define fs1 where "fs1 = fs\<lparr>files := (files fs)(sf \<mapsto> Pickle (checkpoint_data self kwargs))\<rparr>"
  have ts: "torch_save fs (checkpoint_data self kwargs) sf = (None, fs1)"
    using w1 by (simp add: torch_save_def sf_def fs1_def)
  have "can_open_w fs1 tag"
    using w2 by (auto simp: can_open_w_def fs1_def tag_def split: option.splits fs_entry.splits)
  then have "tag_last_checkpoint self fs1 sf tag_file =
      (None, fs1\<lparr>files := (files fs1)(tag \<mapsto> Text (if isabs sf then sf else basename sf))\<rparr>)"
    by (simp add: tag_last_checkpoint_def write_text_def Let_def tag_def)
  then show ?thesis
    using sd ts by (simp add: save_def Let_def sf_def[symmetric] tag_def[symmetric] fs1_def)
qed

lemma checkpoint_data_model: "checkpoint_data self kwargs ''model'' \<noteq> None"
  by (simp add: checkpoint_data_def Let_def map_add_def split: option.splits)

lemma checkpoint_data_optimizer:
  "(checkpoint_data self kwargs ''optimizer'' \<noteq> None) =
     (optimizer self \<noteq> None \<or> kwargs ''optimizer'' \<noteq> None)"
  by (auto simp: checkpoint_data_def Let_def map_add_def split: option.splits)

lemma checkpoint_data_scheduler:
  "(checkpoint_data self kwargs ''scheduler'' \<noteq> None) =
     (scheduler self \<noteq> None \<or> kwargs ''scheduler'' \<noteq> None)"
  by (auto simp: checkpoint_data_def Let_def map_add_def split: option.splits)

lemma checkpoint_data_kwargs: "kwargs k = Some v \<Longrightarrow> checkpoint_data self kwargs k = Some v"
  by (simp add: checkpoint_data_def Let_def map_add_def)

lemma pop_saved_entries:
  assumes "kwargs ''model'' = None" "kwargs ''optimizer'' = None" "kwargs ''scheduler'' = None"
  shows "checkpoint_data self kwargs |`
           (- ({''model''} \<union> (if optimizer self = None then {} else {''optimizer''})
                          \<union> (if scheduler self = None then {} else {''scheduler''}))) = kwargs"
  using assms
  by (auto simp: checkpoint_data_def Let_def restrict_map_def map_add_def fun_eq_iff
      split: option.splits)

lemma checkpoint_data_own:
  assumes "kwargs ''model'' = None" "kwargs ''optimizer'' = None" "kwargs ''scheduler'' = None"
  shows "checkpoint_data self kwargs ''model'' = Some (model self)"
    and "checkpoint_data self kwargs ''optimizer'' = optimizer self"
    and "checkpoint_data self kwargs ''scheduler'' = scheduler self"
  using assms
  by (auto simp: checkpoint_data_def Let_def map_add_def split: option.splits)

lemma load_unfold:
  assumes "p \<noteq> []" and "files fs p = Some (Pickle d)" and "d ''model'' = Some m"
  shows "load self fs (Some p) False tag_file =
     (let self1 = self\<lparr>model := m\<rparr>;
          checkpoint1 = d(''model'' := None);
          (self2, checkpoint2) =
             (case (checkpoint1 ''optimizer'', optimizer self1) of
                (Some st, Some old) \<Rightarrow>
                   (self1\<lparr>optimizer := Some st\<rparr>, checkpoint1(''optimizer'' := None))
              | _ \<Rightarrow> (self1, checkpoint1));
          (self3, checkpoint3) =
             (case (checkpoint2 ''scheduler'', scheduler self2) of
                (Some st, Some old) \<Rightarrow>
                   (self2\<lparr>scheduler := Some st\<rparr>, checkpoint2(''scheduler'' := None))
              | _ \<Rightarrow> (self2, checkpoint2))
      in Inr (self3, checkpoint3))"
proof -
  have tl: "torch_load fs p = Inr d" using assms(2) by (simp add: torch_load_def)
  show ?thesis
    unfolding load_def using assms(1,3) tl by simp
qed

lemma load_explicit:
  assumes "p \<noteq> []" and "files fs p = Some (Pickle d)" and "d ''model'' = Some m"
  shows "load self fs (Some p) False tag_file =
           Inr (self\<lparr>model := m,
                     optimizer := (case (d ''optimizer'', optimizer self) of
                                     (Some st, Some old) \<Rightarrow> Some st | _ \<Rightarrow> optimizer self),
                     scheduler := (case (d ''scheduler'', scheduler self) of
                                     (Some st, Some old) \<Rightarrow> Some st | _ \<Rightarrow> scheduler self)\<rparr>,
                d |` (- ({''model''} \<union> (if optimizer self = None then {} else {''optimizer''})
                                   \<union> (if scheduler self = None then {} else {''scheduler''}))))"
  unfolding load_unfold[OF assms]
  by (cases "d ''optimizer''"; cases "optimizer self"; cases "d ''scheduler''"; cases "scheduler self")
     (auto simp: Let_def restrict_map_def intro!: ext)

lemma load_resume_override:
  assumes "has_checkpoint self fs tag_file"
  shows "load self fs f True tag_file =
           (case get_checkpoint_file self fs tag_file of
              Inl e \<Rightarrow> Inl e
            | Inr p \<Rightarrow> load self fs (Some p) False tag_file)"
proof (cases "get_checkpoint_file self fs tag_file")
  case (Inl e)
  then show ?thesis using assms by (simp add: load_def)
next
  case (Inr p)
  then show ?thesis using assms by (simp add: load_def)
qed

lemma load_nothing:
  assumes "\<not> has_checkpoint self fs tag_file" and "f = None \<or> f = Some []"
  shows "load self fs f resume tag_file = Inr (self, Map.empty)"
proof -
  from assms(2) show ?thesis
  proof
    assume "f = None"
    then show ?thesis using assms(1) by (simp add: load_def)
  next
    assume "f = Some []"
    then show ?thesis using assms(1) by (simp add: load_def)
  qed
qed

lemma has_checkpoint_text:
  "files fs (path_join (save_dir self) tag_file) = Some (Text s) \<Longrightarrow> has_checkpoint self fs tag_file"
  by (simp add: has_checkpoint_def path_exists_def)

lemma load_resume_text:
  assumes t: "files fs (path_join (save_dir self) tag_file) = Some (Text s)"
  shows "load self fs f True tag_file =
           load self fs
             (Some (if isabs (strip (universal_newlines s)) then strip (universal_newlines s)
                    else path_join (save_dir self) (strip (universal_newlines s))))
             False tag_file"
  by (simp only: load_resume_override[OF has_checkpoint_text[OF t]]
        get_checkpoint_file_text[OF t] sum.case)

lemmas fixture_defs = empty_dir_def ckpt_model_only_def ckpt_full_def ckpt_no_dir_def saved_dir_def

lemmas path_defs = path_join_def isabs_def basename_def strip_def is_space_def

section \<open>Properties of the builders\<close>

lemma dom_MODEL_BUILDERS:
  "dom (MODEL_BUILDERS b1 b2 b3 b4 b5 b6) =
     {''POINTNET'', ''DGCNN'', ''PN2SSG'', ''PN2MSG'', ''PNS2CNN'', ''S2CNN''}"
  by (auto simp: MODEL_BUILDERS_def)

lemma build_dataset_unknown_type:
  assumes "build_transform T cfg (mode = ''train'') = Inr t"
    and "DATASET_TYPE cfg \<notin> {''ModelNetH5'', ''ShapeNetH5'', ''KITTI''}"
  shows "build_dataset T D cfg mode = Inl NotImplementedError"
  using assms by (simp add: build_dataset_def Let_def)

lemmas example_defs = example_T_def example_D_def example_DataLoader_def modelnet_cfg_def default_cfg_def

lemma example_build_transform:
  "build_transform example_T modelnet_cfg True = Inr [''PointCloudToTensor'', ''PointCloudTensorTranspose'']"
  "build_transform example_T modelnet_cfg False = Inr [''PointCloudToTensor'', ''PointCloudTensorTranspose'']"
  "build_transform example_T default_cfg True = Inr [''PointCloudToTensor'', ''PointCloudTensorTranspose'']"
  by (simp_all add: build_transform_def call_T_def example_defs)

section \<open>Properties of the argmax\<close>

lemma argmax_from_props:
  assumes "length pre = next" and "bi < next" and "pre ! bi = best"
    and "\<forall>j<next. pre ! j \<le> best" and "\<forall>j<bi. pre ! j < best"
  shows "argmax_from best bi next xs < length (pre @ xs) \<and>
         (\<forall>j<length (pre @ xs). (pre @ xs) ! j \<le> (pre @ xs) ! argmax_from best bi next xs) \<and>
         (\<forall>j<argmax_from best bi next xs. (pre @ xs) ! j < (pre @ xs) ! argmax_from best bi next xs)"
  using assms
proof (induction xs arbitrary: pre "next" bi best)
  case Nil
  then show ?case by auto
next
  case (Cons x xs)
  show ?case
  proof (cases "best < x")
    case True
    have l: "length (pre @ [x]) = Suc next" using Cons.prems(1) by simp
    have b: "next < Suc next" by simp
    have v: "(pre @ [x]) ! next = x" using Cons.prems(1) by (simp add: nth_append)
    have le: "\<forall>j<Suc next. (pre @ [x]) ! j \<le> x"
    proof (intro allI impI)
      fix j assume "j < Suc next"
      then show "(pre @ [x]) ! j \<le> x"
        using Cons.prems(1,4) True by (cases "j = next") (auto simp: nth_append less_Suc_eq intro: order.trans less_imp_le)
    qed
    have lt: "\<forall>j<next. (pre @ [x]) ! j < x"
    proof (intro allI impI)
      fix j assume "j < next"
      then show "(pre @ [x]) ! j < x"
        using Cons.prems(1,4) True by (auto simp: nth_append intro: le_less_trans)
    qed
    from Cons.IH[OF l b v le lt] True show ?thesis by simp
  next
    case False
    have l: "length (pre @ [x]) = Suc next" using Cons.prems(1) by simp
    have b: "bi < Suc next" using Cons.prems(2) by simp
    have v: "(pre @ [x]) ! bi = best" using Cons.prems(1,2,3) by (simp add: nth_append)
    have le: "\<forall>j<Suc next. (pre @ [x]) ! j \<le> best"
    proof (intro allI impI)
      fix j assume "j < Suc next"
      then show "(pre @ [x]) ! j \<le> best"
        using Cons.prems(1,4) False by (cases "j = next") (auto simp: nth_append less_Suc_eq)
    qed
    have lt: "\<forall>j<bi. (pre @ [x]) ! j < best"
      using Cons.prems(1,2,5) by (auto simp: nth_append)
    from Cons.IH[OF l b v le lt] False show ?thesis by simp
  qed
qed

lemma argmax_props:
  assumes "row \<noteq> []"
  shows "argmax row < length row \<and>
         (\<forall>j<length row. row ! j \<le> row ! argmax row) \<and>
         (\<forall>j<argmax row. row ! j < row ! argmax row)"
proof -
  from assms obtain x xs where r: "row = x # xs" by (cases row) auto
  have "argmax_from x 0 1 xs < length ([x] @ xs) \<and>
         (\<forall>j<length ([x] @ xs). ([x] @ xs) ! j \<le> ([x] @ xs) ! argmax_from x 0 1 xs) \<and>
         (\<forall>j<argmax_from x 0 1 xs. ([x] @ xs) ! j < ([x] @ xs) ! argmax_from x 0 1 xs)"
    by (rule argmax_from_props) auto
  then show ?thesis by (simp add: r argmax_def)
qed

lemma to_float_eq_map:
  "length xs = length ys \<Longrightarrow>
   to_float (map2 (\<lambda>x y. x = y) (map f xs) ys) = map2 (\<lambda>x y. if f x = y then 1 else 0) xs ys"
  by (induction xs ys rule: list_induct2) (auto simp: to_float_def)

section \<open>Properties of the random permutation and of \<open>__getitem__\<close>\<close>

lemma length_permute: "length (permute n draws xs) = n"
  by (induction n arbitrary: draws xs) (simp_all add: Let_def)

lemma mset_permute: "length xs = n \<Longrightarrow> mset (permute n draws xs) = mset xs"
proof (induction n arbitrary: draws xs)
  case 0
  then show ?case by simp
next
  case (Suc n)
  define k where "k = draws 0 mod length xs"
  have k: "k < length xs" using Suc.prems by (simp add: k_def)
  have l: "length (take k xs @ drop (Suc k) xs) = n" using Suc.prems k by simp
  have "mset (permute (Suc n) draws xs) =
          add_mset (xs ! k) (mset (permute n (\<lambda>i. draws (Suc i)) (take k xs @ drop (Suc k) xs)))"
    by (simp add: Let_def k_def)
  also have "\<dots> = add_mset (xs ! k) (mset (take k xs @ drop (Suc k) xs))"
    using Suc.IH[OF l] by simp
  also have "\<dots> = mset (take k xs @ xs ! k # drop (Suc k) xs)" by simp
  also have "\<dots> = mset xs" using id_take_nth_drop[OF k] by simp
  finally show ?case .
qed

lemma set_random_permutation: "set (fst (random_permutation draws xs)) = set xs"
  using mset_permute[of xs "length xs" draws] by (simp add: random_permutation_def flip: set_mset_mset)

lemma length_random_permutation: "length (fst (random_permutation draws xs)) = length xs"
  by (simp add: random_permutation_def length_permute)

lemma mset_random_permutation: "mset (fst (random_permutation draws xs)) = mset xs"
  by (simp add: random_permutation_def mset_permute)

lemma mset_map_nth_permutation:
  assumes "mset perm = mset [0..<length pts]"
  shows "mset (map ((!) pts) perm) = mset pts"
proof -
  have "mset (map ((!) pts) perm) = image_mset ((!) pts) (mset perm)" by simp
  also have "\<dots> = image_mset ((!) pts) (mset [0..<length pts])" using assms by simp
  also have "\<dots> = mset (map ((!) pts) [0..<length pts])" by simp
  also have "\<dots> = mset pts" by (simp add: map_nth)
  finally show ?thesis .
qed

lemma set_map_nth_subset:
  assumes "set idx \<subseteq> {0..<length pts}"
  shows "set (map ((!) pts) idx) \<subseteq> set pts"
  using assms by (auto simp: subset_iff)

lemma chosen_props:
  "mset (chosen self rng n) = mset [0..<n]" "length (chosen self rng n) = n"
  "\<not> shuffle_points self \<Longrightarrow> chosen self rng n = [0..<n]"
  by (simp_all add: chosen_def mset_random_permutation length_random_permutation)

lemma getitem_crop:
  assumes md: "py_index (meta_data self) index = Inr md"
    and cl: "classes_to_ind_map self (class_name md) = Some class_ind"
    and ld: "load_pts (pts_path md) = Inr pts"
    and np: "num_points self > 0"
    and tr: "transform self = None"
    and ge: "num_points self \<le> int (length pts)"
  shows "\<exists>rng'. getitem self load_pts rng index =
           Inr (\<lparr>points = map ((!) pts) (take (nat (num_points self)) (chosen self rng (length pts))),
                 cls_labels = class_ind\<rparr>, rng')"
  using assms by (cases "shuffle_points self") (simp_all add: getitem_def Let_def chosen_def split_def)

lemma getitem_pad:
  assumes md: "py_index (meta_data self) index = Inr md"
    and cl: "classes_to_ind_map self (class_name md) = Some class_ind"
    and ld: "load_pts (pts_path md) = Inr pts"
    and np: "num_points self > 0"
    and tr: "transform self = None"
    and lt: "int (length pts) < num_points self"
  shows "\<exists>rng'. getitem self load_pts rng index =
           Inr (\<lparr>points = map ((!) pts) (chosen self rng (length pts)) @
                          map ((!) pts) (take (nat (num_points self - int (length pts)))
                             (fst (random_permutation
                                (if shuffle_points self then snd (random_permutation rng [0..<length pts])
                                 else rng)
                                (chosen self rng (length pts))))),
                 cls_labels = class_ind\<rparr>, rng')"
  using assms by (cases "shuffle_points self") (simp_all add: getitem_def Let_def chosen_def split_def)

text \<open>
  The padding is cut from one permutation of the indices, so it is never longer than
  the cloud: asked for more than twice the points the file holds, \<open>__getitem__\<close>
  returns twice the points of the file, fewer than \<open>num_points\<close>. So it is for the
  dataset that asks for five points of a file of two: it returns four.
\<close>

lemma getitem_short_padding:
  assumes md: "py_index (meta_data self) index = Inr md"
    and cl: "classes_to_ind_map self (class_name md) = Some class_ind"
    and ld: "load_pts (pts_path md) = Inr pts"
    and tr: "transform self = None"
    and far: "2 * int (length pts) < num_points self"
  shows "\<exists>it rng'. getitem self load_pts rng index = Inr (it, rng') \<and>
           length (points it) = 2 * length pts"
proof -
  have np: "num_points self > 0" and lt: "int (length pts) < num_points self"
    using far by linarith+
  define ch where "ch = chosen self rng (length pts)"
  define perm where "perm = fst (random_permutation
                                (if shuffle_points self then snd (random_permutation rng [0..<length pts])
                                 else rng) ch)"
  define it where "it = \<lparr>points = map ((!) pts) ch @
                            map ((!) pts) (take (nat (num_points self - int (length pts))) perm),
                          cls_labels = class_ind\<rparr>"
  from getitem_pad[where load_pts = load_pts and md = md and rng = rng, OF md cl ld np tr lt]
  obtain rng' where g: "getitem self load_pts rng index = Inr (it, rng')"
    unfolding it_def perm_def ch_def by blast
  have lc: "length ch = length pts" by (simp add: ch_def chosen_props)
  have lperm: "length perm = length pts"
    by (simp add: perm_def length_random_permutation lc)
  have "length pts \<le> nat (num_points self - int (length pts))"
    using far by linarith
  then have "length (points it) = 2 * length pts"
    by (simp add: it_def lc lperm)
  with g show ?thesis by blast
qed

lemma getitem_pads_at_most_once:
  "\<exists>it rng'. getitem two_point_dataset two_point_file rng 0 = Inr (it, rng') \<and>
     length (points it) = 4"
proof -
  have md: "py_index (meta_data two_point_dataset) 0 = Inr (hd chair_meta)"
    by (simp add: py_index_def two_point_dataset_def chair_meta_def)
  have cl: "classes_to_ind_map two_point_dataset (class_name (hd chair_meta)) = Some 0"
    by (simp add: two_point_dataset_def chair_meta_def)
  have ld: "two_point_file (pts_path (hd chair_meta)) = Inr [41, 42]"
    by (simp add: two_point_file_def chair_meta_def)
  have tr: "transform two_point_dataset = None"
    and far: "2 * int (length [41, 42 :: nat]) < num_points two_point_dataset"
    by (simp_all add: two_point_dataset_def)
  from getitem_short_padding [where load_pts = two_point_file and md = "hd chair_meta"
      and rng = rng, OF md cl ld tr far]
  show ?thesis by simp
qed

section \<open>Saving a checkpoint\<close>

text \<open>
  C1, as amended. For a checkpointer whose \<open>save_dir\<close> is not empty, when the
  checkpoint file \<open>os.path.join(save_dir, name + ".pth")\<close> and the tag file
  \<open>os.path.join(save_dir, tag_file)\<close> can both be opened for writing and are different
  paths, \<open>save(name, tag_file, **kwargs)\<close> returns normally; afterwards the checkpoint
  file holds a dictionary that has the key \<open>model\<close>, has the key \<open>optimizer\<close> exactly
  when the optimizer is not \<open>None\<close> or \<open>kwargs\<close> has that key, has the key
  \<open>scheduler\<close> exactly when the scheduler is not \<open>None\<close> or \<open>kwargs\<close> has that key,
  and holds every entry of \<open>kwargs\<close>; and the tag file holds the name of the file just
  saved: its path when that path is absolute, its base name otherwise.
\<close>

theorem save_writes_checkpoint_and_tag:
  assumes sd: "save_dir self \<noteq> []"
    and w1: "can_open_w fs (path_join (save_dir self) (name @ ''.pth''))"
    and w2: "can_open_w fs (path_join (save_dir self) tag_file)"
    and ne: "path_join (save_dir self) tag_file \<noteq> path_join (save_dir self) (name @ ''.pth'')"
  shows "fst (save self fs name tag_file kwargs) = None \<and>
         files (snd (save self fs name tag_file kwargs)) (path_join (save_dir self) (name @ ''.pth''))
           = Some (Pickle (checkpoint_data self kwargs)) \<and>
         ''model'' \<in> dom (checkpoint_data self kwargs) \<and>
         (''optimizer'' \<in> dom (checkpoint_data self kwargs) \<longleftrightarrow>
            optimizer self \<noteq> None \<or> ''optimizer'' \<in> dom kwargs) \<and>
         (''scheduler'' \<in> dom (checkpoint_data self kwargs) \<longleftrightarrow>
            scheduler self \<noteq> None \<or> ''scheduler'' \<in> dom kwargs) \<and>
         kwargs \<subseteq>\<^sub>m checkpoint_data self kwargs \<and>
         files (snd (save self fs name tag_file kwargs)) (path_join (save_dir self) tag_file)
           = Some (Text (if isabs (path_join (save_dir self) (name @ ''.pth''))
                         then path_join (save_dir self) (name @ ''.pth'')
                         else basename (path_join (save_dir self) (name @ ''.pth''))))"
proof -
  note r = save_result[OF sd w1 w2, of kwargs]
  have 1: "fst (save self fs name tag_file kwargs) = None" by (simp add: r)
  have 2: "files (snd (save self fs name tag_file kwargs)) (path_join (save_dir self) (name @ ''.pth''))
           = Some (Pickle (checkpoint_data self kwargs))"
    using ne by (simp add: r)
  have 3: "''model'' \<in> dom (checkpoint_data self kwargs)"
    using checkpoint_data_model[of self kwargs] by (simp add: dom_def)
  have 4: "(''optimizer'' \<in> dom (checkpoint_data self kwargs) \<longleftrightarrow>
            optimizer self \<noteq> None \<or> ''optimizer'' \<in> dom kwargs)"
    using checkpoint_data_optimizer[of self kwargs] by (simp add: dom_def)
  have 5: "(''scheduler'' \<in> dom (checkpoint_data self kwargs) \<longleftrightarrow>
            scheduler self \<noteq> None \<or> ''scheduler'' \<in> dom kwargs)"
    using checkpoint_data_scheduler[of self kwargs] by (simp add: dom_def)
  have 6: "kwargs \<subseteq>\<^sub>m checkpoint_data self kwargs"
    by (auto simp: map_le_def checkpoint_data_kwargs)
  have 7: "files (snd (save self fs name tag_file kwargs)) (path_join (save_dir self) tag_file)
           = Some (Text (if isabs (path_join (save_dir self) (name @ ''.pth''))
                         then path_join (save_dir self) (name @ ''.pth'')
                         else basename (path_join (save_dir self) (name @ ''.pth''))))"
    by (simp add: r)
  from 1 2 3 4 5 6 7 show ?thesis by blast
qed

text \<open>
  The theorem at a checkpointer with an optimizer and a scheduler saving
  \<open>model_001\<close> with \<open>epoch=3\<close> into the empty directory \<open>out\<close>.
\<close>

theorem save_writes_checkpoint_and_tag_witness:
  "fst (save ckpt_full empty_dir ''model_001'' ''last_checkpoint'' [''epoch'' \<mapsto> 3]) = None \<and>
   files (snd (save ckpt_full empty_dir ''model_001'' ''last_checkpoint'' [''epoch'' \<mapsto> 3]))
      ''out/model_001.pth'' = Some (Pickle (checkpoint_data ckpt_full [''epoch'' \<mapsto> 3])) \<and>
   ''model'' \<in> dom (checkpoint_data ckpt_full [''epoch'' \<mapsto> 3]) \<and>
   ''optimizer'' \<in> dom (checkpoint_data ckpt_full [''epoch'' \<mapsto> 3]) \<and>
   ''scheduler'' \<in> dom (checkpoint_data ckpt_full [''epoch'' \<mapsto> 3]) \<and>
   checkpoint_data ckpt_full [''epoch'' \<mapsto> 3] ''epoch'' = Some 3 \<and>
   files (snd (save ckpt_full empty_dir ''model_001'' ''last_checkpoint'' [''epoch'' \<mapsto> 3]))
      ''out/last_checkpoint'' = Some (Text ''model_001.pth'')"
proof -
  have sd: "save_dir ckpt_full \<noteq> []" by (simp add: ckpt_full_def)
  have p1: "path_join (save_dir ckpt_full) (''model_001'' @ ''.pth'') = ''out/model_001.pth''"
    by (simp add: ckpt_full_def path_defs)
  have p2: "path_join (save_dir ckpt_full) ''last_checkpoint'' = ''out/last_checkpoint''"
    by (simp add: ckpt_full_def path_defs)
  have w1: "can_open_w empty_dir (path_join (save_dir ckpt_full) (''model_001'' @ ''.pth''))"
    by (simp add: can_open_w_def empty_dir_def)
  have w2: "can_open_w empty_dir (path_join (save_dir ckpt_full) ''last_checkpoint'')"
    by (simp add: can_open_w_def empty_dir_def)
  have ne: "path_join (save_dir ckpt_full) ''last_checkpoint'' \<noteq>
            path_join (save_dir ckpt_full) (''model_001'' @ ''.pth'')"
    unfolding p1 p2 by simp
  have b: "basename ''out/model_001.pth'' = ''model_001.pth''" "\<not> isabs ''out/model_001.pth''"
    by (simp_all add: path_defs)
  have o: "optimizer ckpt_full \<noteq> None" "scheduler ckpt_full \<noteq> None"
    by (simp_all add: ckpt_full_def)
  note t = save_writes_checkpoint_and_tag[OF sd w1 w2 ne, of "[''epoch'' \<mapsto> 3]", unfolded p1 p2]
  from t have m: "[''epoch'' \<mapsto> 3] \<subseteq>\<^sub>m checkpoint_data ckpt_full [''epoch'' \<mapsto> 3]" by blast
  have e: "checkpoint_data ckpt_full [''epoch'' \<mapsto> 3] ''epoch'' = Some 3"
    using m by (simp add: map_le_def)
  from t o e b show ?thesis by simp
qed

text \<open>
  C1 as stated fails when \<open>kwargs\<close> itself carries the key \<open>optimizer\<close>: the
  checkpointer below has no optimizer, and the dictionary it saves with
  \<open>save("model_001", optimizer=5)\<close> has the key all the same, because
  \<open>data.update(kwargs)\<close> copies it.
\<close>

theorem save_kwargs_optimizer_counterexample:
  "optimizer ckpt_model_only = None \<and>
   (case files (snd (save ckpt_model_only empty_dir ''model_001'' ''last_checkpoint''
                        [''optimizer'' \<mapsto> 5])) ''out/model_001.pth'' of
      Some (Pickle d) \<Rightarrow> d ''optimizer''
    | _ \<Rightarrow> None) = Some 5"
  by (simp add: fixture_defs path_defs save_def checkpoint_data_def torch_save_def
      tag_last_checkpoint_def write_text_def can_open_w_def Let_def)

text \<open>
  C10. When \<open>save_dir\<close> is the empty string, \<open>save\<close> returns normally and
  the file system afterwards is the file system before: no checkpoint file is written
  and no tag file is created or changed.
\<close>

theorem save_empty_dir_noop:
  "save_dir self = [] \<Longrightarrow> save self fs name tag_file kwargs = (None, fs)"
  by (simp add: save_def)

text \<open>
  The theorem at a checkpointer without \<open>save_dir\<close>.
\<close>

theorem save_empty_dir_noop_witness:
  "save ckpt_no_dir empty_dir ''model_001'' ''last_checkpoint'' [''epoch'' \<mapsto> 3] = (None, empty_dir)"
  using save_empty_dir_noop [of ckpt_no_dir empty_dir "''model_001''" "''last_checkpoint''" "[''epoch'' \<mapsto> 3]"]
  by (simp add: ckpt_no_dir_def)

section \<open>The pointer file: writing it and reading it back\<close>

text \<open>
  C2, as amended. Let the stored name of \<open>fn\<close> be \<open>fn\<close> itself when it is absolute
  and its base name otherwise. When the pointer file can be opened for writing and the
  stored name holds no carriage return and neither begins nor ends with whitespace,
  \<open>tag_last_checkpoint(fn, tag_file)\<close> returns normally and afterwards
  \<open>get_checkpoint_file(tag_file)\<close> returns \<open>fn\<close> for an absolute \<open>fn\<close> and
  \<open>os.path.join(save_dir, os.path.basename(fn))\<close> for a relative one.
\<close>

theorem tag_then_get_roundtrip:
  assumes w: "can_open_w fs (path_join (save_dir self) tag_file)"
    and p: "plain_name (if isabs fn then fn else basename fn)"
  shows "fst (tag_last_checkpoint self fs fn tag_file) = None \<and>
         get_checkpoint_file self (snd (tag_last_checkpoint self fs fn tag_file)) tag_file =
           Inr (if isabs fn then fn else path_join (save_dir self) (basename fn))"
proof -
  define stored where "stored = (if isabs fn then fn else basename fn)"
  define tag where "tag = path_join (save_dir self) tag_file"
  have t: "tag_last_checkpoint self fs fn tag_file = write_text fs tag stored"
    by (simp add: tag_last_checkpoint_def Let_def stored_def tag_def)
  have r: "read_text (snd (write_text fs tag stored)) tag = Inr (universal_newlines stored)"
    using w unfolding tag_def by (rule read_text_after_write)
  have s: "strip (universal_newlines stored) = stored"
    using p unfolding stored_def by (rule read_back_plain)
  have ok: "fst (write_text fs tag stored) = None"
    using w by (simp add: write_text_def tag_def)
  have "get_checkpoint_file self (snd (write_text fs tag stored)) tag_file =
          Inr (if \<not> isabs stored then path_join (save_dir self) stored else stored)"
    using r[unfolded tag_def] s by (simp add: get_checkpoint_file_def Let_def tag_def)
  moreover have "(if \<not> isabs stored then path_join (save_dir self) stored else stored) =
       (if isabs fn then fn else path_join (save_dir self) (basename fn))"
    by (simp add: stored_def isabs_basename)
  ultimately show ?thesis using ok t by simp
qed

text \<open>
  The round trip at the relative name \<open>out/model_001.pth\<close>, tagged by a
  checkpointer whose \<open>save_dir\<close> is \<open>out\<close>.
\<close>

theorem tag_then_get_roundtrip_witness:
  "fst (tag_last_checkpoint ckpt_model_only empty_dir ''out/model_001.pth'' ''last_checkpoint'') = None \<and>
   get_checkpoint_file ckpt_model_only
     (snd (tag_last_checkpoint ckpt_model_only empty_dir ''out/model_001.pth'' ''last_checkpoint''))
     ''last_checkpoint'' = Inr ''out/model_001.pth''"
  using tag_then_get_roundtrip [of empty_dir ckpt_model_only "''last_checkpoint''" "''out/model_001.pth''"]
  by (simp add: fixture_defs can_open_w_def plain_name_def path_defs)

text \<open>
  C2 as stated fails at a name that ends with a space: \<open>get_checkpoint_file\<close>
  strips what it reads, so after tagging \<open>"model_001.pth "\<close> it returns
  \<open>out/model_001.pth\<close>, while \<open>os.path.join(save_dir, os.path.basename(fn))\<close> is
  \<open>"out/model_001.pth "\<close>.
\<close>

theorem tag_then_get_counterexample:
  "fst (tag_last_checkpoint ckpt_model_only empty_dir ''model_001.pth '' ''last_checkpoint'') = None \<and>
   get_checkpoint_file ckpt_model_only
     (snd (tag_last_checkpoint ckpt_model_only empty_dir ''model_001.pth '' ''last_checkpoint''))
     ''last_checkpoint'' = Inr ''out/model_001.pth'' \<and>
   \<not> isabs ''model_001.pth '' \<and>
   path_join (save_dir ckpt_model_only) (basename ''model_001.pth '') = ''out/model_001.pth ''"
  by (simp add: fixture_defs path_defs tag_last_checkpoint_def get_checkpoint_file_def
      write_text_def read_text_def can_open_w_def)

section \<open>Loading a checkpoint\<close>

text \<open>
  C3. Let the tag file \<open>os.path.join(save_dir, tag_file)\<close> hold the text \<open>s\<close>. The
  path it records is \<open>s\<close> as read and stripped, joined to \<open>save_dir\<close> unless it is
  absolute. With \<open>resume=True\<close>, \<open>load(f)\<close> is \<open>load\<close> of that path, whatever \<open>f\<close> is
  (first conjunct). When that path is not empty and holds a checkpoint with a \<open>model\<close>
  entry, the model takes that entry, the optimizer and the scheduler take theirs when
  the checkpoint has one and they are not \<open>None\<close>, and the entries that remain are
  returned (second conjunct). When nothing exists at the tag file's path and \<open>f\<close> is
  \<open>None\<close> or empty, \<open>load\<close> returns the empty dictionary and the checkpointer is
  unchanged (third conjunct).
\<close>

theorem load_resume_follows_tag:
  "(files fs (path_join (save_dir self) tag_file) = Some (Text s) \<longrightarrow>
      load self fs f True tag_file =
        load self fs
          (Some (if isabs (strip (universal_newlines s)) then strip (universal_newlines s)
                 else path_join (save_dir self) (strip (universal_newlines s))))
          False tag_file) \<and>
   (files fs (path_join (save_dir self) tag_file) = Some (Text s) \<and>
    p = (if isabs (strip (universal_newlines s)) then strip (universal_newlines s)
         else path_join (save_dir self) (strip (universal_newlines s))) \<and>
    p \<noteq> [] \<and> files fs p = Some (Pickle d) \<and> d ''model'' = Some m \<longrightarrow>
      load self fs f True tag_file =
        Inr (self\<lparr>model := m,
                  optimizer := (case (d ''optimizer'', optimizer self) of
                                  (Some st, Some old) \<Rightarrow> Some st | _ \<Rightarrow> optimizer self),
                  scheduler := (case (d ''scheduler'', scheduler self) of
                                  (Some st, Some old) \<Rightarrow> Some st | _ \<Rightarrow> scheduler self)\<rparr>,
             d |` (- ({''model''} \<union> (if optimizer self = None then {} else {''optimizer''})
                                \<union> (if scheduler self = None then {} else {''scheduler''}))))) \<and>
   (files fs (path_join (save_dir self) tag_file) = None \<and> (f = None \<or> f = Some []) \<longrightarrow>
      load self fs f True tag_file = Inr (self, Map.empty))"
proof (intro conjI impI)
  assume "files fs (path_join (save_dir self) tag_file) = Some (Text s)"
  then show "load self fs f True tag_file =
        load self fs
          (Some (if isabs (strip (universal_newlines s)) then strip (universal_newlines s)
                 else path_join (save_dir self) (strip (universal_newlines s))))
          False tag_file"
    by (rule load_resume_text)
next
  assume a: "files fs (path_join (save_dir self) tag_file) = Some (Text s) \<and>
    p = (if isabs (strip (universal_newlines s)) then strip (universal_newlines s)
         else path_join (save_dir self) (strip (universal_newlines s))) \<and>
    p \<noteq> [] \<and> files fs p = Some (Pickle d) \<and> d ''model'' = Some m"
  from a have t: "files fs (path_join (save_dir self) tag_file) = Some (Text s)" by blast
  from a have pe: "(if isabs (strip (universal_newlines s)) then strip (universal_newlines s)
         else path_join (save_dir self) (strip (universal_newlines s))) = p" by blast
  from a have pn: "p \<noteq> []" by blast
  from a have fp: "files fs p = Some (Pickle d)" by blast
  from a have dm: "d ''model'' = Some m" by blast
  have "load self fs f True tag_file = load self fs (Some p) False tag_file"
    using load_resume_text[OF t, of f] by (simp only: pe)
  also note load_explicit[OF pn fp dm, of self tag_file]
  finally show "load self fs f True tag_file =
        Inr (self\<lparr>model := m,
                  optimizer := (case (d ''optimizer'', optimizer self) of
                                  (Some st, Some old) \<Rightarrow> Some st | _ \<Rightarrow> optimizer self),
                  scheduler := (case (d ''scheduler'', scheduler self) of
                                  (Some st, Some old) \<Rightarrow> Some st | _ \<Rightarrow> scheduler self)\<rparr>,
             d |` (- ({''model''} \<union> (if optimizer self = None then {} else {''optimizer''})
                                \<union> (if scheduler self = None then {} else {''scheduler''}))))" .
next
  assume a: "files fs (path_join (save_dir self) tag_file) = None \<and> (f = None \<or> f = Some [])"
  then have "\<not> has_checkpoint self fs tag_file"
    by (simp add: has_checkpoint_def path_exists_def)
  with a show "load self fs f True tag_file = Inr (self, Map.empty)"
    using load_nothing[of self fs tag_file f True] by blast
qed

text \<open>
  The theorem at a directory holding \<open>out/model_001.pth\<close> and a tag file whose text
  is \<open>model_001.pth\<close> and a newline: the argument \<open>other.pth\<close> is ignored. And at an
  empty directory with \<open>f = None\<close>.
\<close>

theorem load_resume_follows_tag_witness:
  "load ckpt_full saved_dir (Some ''other.pth'') True ''last_checkpoint'' =
     Inr (ckpt_full\<lparr>model := 1, optimizer := Some 2\<rparr>, [''epoch'' \<mapsto> 3]) \<and>
   load ckpt_full empty_dir None True ''last_checkpoint'' = Inr (ckpt_full, Map.empty)"
proof -
  have tp: "path_join (save_dir ckpt_full) ''last_checkpoint'' = ''out/last_checkpoint''"
    by (simp add: ckpt_full_def path_defs)
  have t: "files saved_dir (path_join (save_dir ckpt_full) ''last_checkpoint'') =
             Some (Text ''model_001.pth\<newline>'')"
    unfolding tp by (simp add: saved_dir_def)
  have r: "''out/model_001.pth'' =
      (if isabs (strip (universal_newlines ''model_001.pth\<newline>''))
       then strip (universal_newlines ''model_001.pth\<newline>'')
       else path_join (save_dir ckpt_full) (strip (universal_newlines ''model_001.pth\<newline>'')))"
    by (simp add: ckpt_full_def path_defs)
  have f: "files saved_dir ''out/model_001.pth'' =
             Some (Pickle [''model'' \<mapsto> 1, ''optimizer'' \<mapsto> 2, ''epoch'' \<mapsto> 3])"
    by (simp add: saved_dir_def)
  have c: "files saved_dir (path_join (save_dir ckpt_full) ''last_checkpoint'') =
             Some (Text ''model_001.pth\<newline>'') \<and>
           ''out/model_001.pth'' =
             (if isabs (strip (universal_newlines ''model_001.pth\<newline>''))
              then strip (universal_newlines ''model_001.pth\<newline>'')
              else path_join (save_dir ckpt_full) (strip (universal_newlines ''model_001.pth\<newline>''))) \<and>
           ''out/model_001.pth'' \<noteq> [] \<and>
           files saved_dir ''out/model_001.pth'' =
             Some (Pickle [''model'' \<mapsto> 1, ''optimizer'' \<mapsto> 2, ''epoch'' \<mapsto> 3]) \<and>
           [''model'' \<mapsto> 1, ''optimizer'' \<mapsto> 2, ''epoch'' \<mapsto> 3::nat] ''model'' = Some 1"
    by (intro conjI t r f) simp_all
  have rm: "[''model'' \<mapsto> 1, ''optimizer'' \<mapsto> 2, ''epoch'' \<mapsto> 3::nat] |`
             (- {''model'', ''optimizer'', ''scheduler''}) = [''epoch'' \<mapsto> 3]"
    by (auto simp: restrict_map_def fun_eq_iff)
  have o: "optimizer ckpt_full = Some 8" "scheduler ckpt_full = Some 9"
    by (simp_all add: ckpt_full_def)
  have u: "ckpt_full\<lparr>model := 1, optimizer := Some 2, scheduler := Some 9\<rparr> =
           ckpt_full\<lparr>model := 1, optimizer := Some 2\<rparr>"
    by (simp add: ckpt_full_def)
  have su: "{''model''} \<union> {''optimizer''} \<union> {''scheduler''} = {''model'', ''optimizer'', ''scheduler''}"
    by auto
  have 1: "load ckpt_full saved_dir (Some ''other.pth'') True ''last_checkpoint'' =
     Inr (ckpt_full\<lparr>model := 1, optimizer := Some 2\<rparr>, [''epoch'' \<mapsto> 3])"
    using load_resume_follows_tag [of saved_dir ckpt_full "''last_checkpoint''" "''model_001.pth\<newline>''"
        "Some ''other.pth''" "''out/model_001.pth''"
        "[''model'' \<mapsto> 1, ''optimizer'' \<mapsto> 2, ''epoch'' \<mapsto> 3]" 1,
        THEN conjunct2, THEN conjunct1, rule_format, OF c]
    by (simp add: o u su rm)
  have n: "files empty_dir (path_join (save_dir ckpt_full) ''last_checkpoint'') = None"
    by (simp add: empty_dir_def)
  have 2: "load ckpt_full empty_dir None True ''last_checkpoint'' = Inr (ckpt_full, Map.empty)"
    using load_resume_follows_tag [of empty_dir ckpt_full "''last_checkpoint''" _ None,
        THEN conjunct2, THEN conjunct2] n by simp
  from 1 2 show ?thesis by simp
qed

text \<open>
  C4, as amended. For a checkpointer whose \<open>save_dir\<close> is not empty and holds no
  carriage return, whose optimizer and scheduler are both not \<open>None\<close>, for kwargs
  whose keys avoid \<open>model\<close>, \<open>optimizer\<close> and \<open>scheduler\<close>, and for a name that holds
  no \<open>/\<close> and no carriage return and does not begin with whitespace: when the
  checkpoint file and the tag file \<open>last_checkpoint\<close> can be opened for writing,
  \<open>save(name, **kwargs)\<close> returns normally and \<open>load(f, resume=True)\<close> after it
  returns a dictionary equal to \<open>kwargs\<close> and leaves the checkpointer as it was,
  whatever \<open>f\<close> is.
\<close>

theorem load_after_save_returns_kwargs:
  assumes sd: "save_dir self \<noteq> []"
    and opt: "optimizer self \<noteq> None" and sch: "scheduler self \<noteq> None"
    and keys: "''model'' \<notin> dom kwargs" "''optimizer'' \<notin> dom kwargs" "''scheduler'' \<notin> dom kwargs"
    and w1: "can_open_w fs (path_join (save_dir self) (name @ ''.pth''))"
    and w2: "can_open_w fs (path_join (save_dir self) ''last_checkpoint'')"
    and slash: "CHR ''/'' \<notin> set name"
    and cr: "CHR 0x0D \<notin> set name" "CHR 0x0D \<notin> set (save_dir self)"
    and sp: "name = [] \<or> \<not> is_space (hd name)"
  shows "fst (save self fs name ''last_checkpoint'' kwargs) = None \<and>
         load self (snd (save self fs name ''last_checkpoint'' kwargs)) f True ''last_checkpoint''
           = Inr (self, kwargs)"
proof -
  define sf where "sf = path_join (save_dir self) (name @ ''.pth'')"
  define tag where "tag = path_join (save_dir self) ''last_checkpoint''"
  define stored where "stored = (if isabs sf then sf else basename sf)"
  define fs' where "fs' = snd (save self fs name ''last_checkpoint'' kwargs)"
  have kw: "kwargs ''model'' = None" "kwargs ''optimizer'' = None" "kwargs ''scheduler'' = None"
    using keys by (auto simp: dom_def)
  have ne: "tag \<noteq> sf"
    unfolding tag_def sf_def by (rule tag_differs_from_checkpoint)
  have r: "save self fs name ''last_checkpoint'' kwargs =
             (None, fs\<lparr>files := (files fs)(sf \<mapsto> Pickle (checkpoint_data self kwargs),
                                            tag \<mapsto> Text stored)\<rparr>)"
    using save_result[OF sd w1 w2, of kwargs] by (simp add: sf_def tag_def stored_def)
  then have f_tag: "files fs' tag = Some (Text stored)"
    and f_sf: "files fs' sf = Some (Pickle (checkpoint_data self kwargs))"
    using ne by (simp_all add: fs'_def)
  have res: "plain_name stored \<and> (if isabs stored then stored else path_join (save_dir self) stored) = sf"
    unfolding stored_def sf_def by (rule stored_name_resolves[OF sd slash cr sp])
  have has: "has_checkpoint self fs' ''last_checkpoint''"
    using f_tag by (simp add: has_checkpoint_def path_exists_def tag_def)
  have get: "get_checkpoint_file self fs' ''last_checkpoint'' = Inr sf"
  proof -
    from res have rb: "strip (universal_newlines stored) = stored"
      by (simp add: read_back_plain)
    from res have e: "(if isabs stored then stored else path_join (save_dir self) stored) = sf"
      by simp
    show ?thesis
      using get_checkpoint_file_text[OF f_tag[unfolded tag_def]] by (simp only: rb e)
  qed
  have sf_ne: "sf \<noteq> []" by (auto simp: sf_def path_join_def)
  have own: "checkpoint_data self kwargs ''model'' = Some (model self)"
      "checkpoint_data self kwargs ''optimizer'' = optimizer self"
      "checkpoint_data self kwargs ''scheduler'' = scheduler self"
    using checkpoint_data_own[OF kw] by simp_all
  have "load self fs' f True ''last_checkpoint'' = load self fs' (Some sf) False ''last_checkpoint''"
    using load_resume_override[OF has] get by simp
  also have "\<dots> = Inr (self, kwargs)"
    using load_explicit[OF sf_ne f_sf own(1), of self "''last_checkpoint''"] opt sch
      pop_saved_entries[OF kw, of self]
    by (auto simp: own(2,3) insert_commute)
  finally show ?thesis using r by (simp add: fs'_def)
qed

text \<open>
  The theorem at \<open>save("model_001", epoch=3)\<close> into the empty directory \<open>out\<close>.
\<close>

theorem load_after_save_witness:
  "load ckpt_full (snd (save ckpt_full empty_dir ''model_001'' ''last_checkpoint'' [''epoch'' \<mapsto> 3]))
     None True ''last_checkpoint'' = Inr (ckpt_full, [''epoch'' \<mapsto> 3])"
proof -
  have "fst (save ckpt_full empty_dir ''model_001'' ''last_checkpoint'' [''epoch'' \<mapsto> 3]) = None \<and>
    load ckpt_full (snd (save ckpt_full empty_dir ''model_001'' ''last_checkpoint'' [''epoch'' \<mapsto> 3]))
     None True ''last_checkpoint'' = Inr (ckpt_full, [''epoch'' \<mapsto> 3])"
    by (rule load_after_save_returns_kwargs)
       (simp_all add: ckpt_full_def empty_dir_def can_open_w_def is_space_def)
  then show ?thesis by simp
qed

text \<open>
  C4 as stated fails for a checkpointer whose \<open>save_dir\<close> is empty: \<open>save\<close> writes
  nothing, so \<open>load(resume=True)\<close> finds no tag file and returns the empty dictionary,
  not \<open>{"epoch": 3}\<close>.
\<close>

theorem load_after_save_counterexample:
  "optimizer ckpt_no_dir \<noteq> None \<and> scheduler ckpt_no_dir \<noteq> None \<and>
   dom [''epoch'' \<mapsto> 3::nat] = {''epoch''} \<and>
   load ckpt_no_dir (snd (save ckpt_no_dir empty_dir ''model_001'' ''last_checkpoint'' [''epoch'' \<mapsto> 3]))
     None True ''last_checkpoint'' = Inr (ckpt_no_dir, Map.empty) \<and>
   [''epoch'' \<mapsto> 3::nat] \<noteq> Map.empty"
  by (simp add: fixture_defs path_defs save_def load_def has_checkpoint_def path_exists_def)

section \<open>Building a model\<close>

text \<open>
  C5. \<open>build_model(cfg)\<close> is the builder registered under \<open>cfg.MODEL.TYPE\<close> applied
  to \<open>cfg\<close>, and it raises \<open>KeyError\<close> when no builder is registered under that name;
  the registry the module defines has exactly the six names \<open>POINTNET\<close>, \<open>DGCNN\<close>,
  \<open>PN2SSG\<close>, \<open>PN2MSG\<close>, \<open>PNS2CNN\<close> and \<open>S2CNN\<close>, so with it every other
  \<open>MODEL.TYPE\<close> raises \<open>KeyError\<close>.
\<close>

theorem build_model_dispatch:
  "(registry (MODEL_TYPE cfg) = Some builder \<longrightarrow> build_model registry cfg = builder cfg) \<and>
   (MODEL_TYPE cfg \<notin> dom registry \<longrightarrow> build_model registry cfg = Inl KeyError) \<and>
   dom (MODEL_BUILDERS b1 b2 b3 b4 b5 b6) =
     {''POINTNET'', ''DGCNN'', ''PN2SSG'', ''PN2MSG'', ''PNS2CNN'', ''S2CNN''} \<and>
   (MODEL_TYPE cfg \<notin> {''POINTNET'', ''DGCNN'', ''PN2SSG'', ''PN2MSG'', ''PNS2CNN'', ''S2CNN''} \<longrightarrow>
      build_model (MODEL_BUILDERS b1 b2 b3 b4 b5 b6) cfg = Inl KeyError)"
proof (intro conjI impI)
  assume "registry (MODEL_TYPE cfg) = Some builder"
  then show "build_model registry cfg = builder cfg" by (simp add: build_model_def)
next
  assume "MODEL_TYPE cfg \<notin> dom registry"
  then show "build_model registry cfg = Inl KeyError"
    by (simp add: build_model_def dom_def)
next
  show "dom (MODEL_BUILDERS b1 b2 b3 b4 b5 b6) =
     {''POINTNET'', ''DGCNN'', ''PN2SSG'', ''PN2MSG'', ''PNS2CNN'', ''S2CNN''}"
    by (rule dom_MODEL_BUILDERS)
next
  assume "MODEL_TYPE cfg \<notin> {''POINTNET'', ''DGCNN'', ''PN2SSG'', ''PN2MSG'', ''PNS2CNN'', ''S2CNN''}"
  then have "MODEL_TYPE cfg \<notin> dom (MODEL_BUILDERS b1 b2 b3 b4 b5 b6)"
    by (simp add: dom_MODEL_BUILDERS)
  then show "build_model (MODEL_BUILDERS b1 b2 b3 b4 b5 b6) cfg = Inl KeyError"
    by (simp add: build_model_def dom_def)
qed

text \<open>
  The theorem at \<open>MODEL.TYPE = "DGCNN"\<close> and at \<open>MODEL.TYPE = "RESNET"\<close>.
\<close>

theorem build_model_dispatch_witness:
  "build_model example_registry (default_cfg\<lparr>MODEL_TYPE := ''DGCNN''\<rparr>) = Inr ''DGCNNCls'' \<and>
   build_model example_registry (default_cfg\<lparr>MODEL_TYPE := ''RESNET''\<rparr>) = Inl KeyError"
proof -
  have 1: "build_model example_registry (default_cfg\<lparr>MODEL_TYPE := ''DGCNN''\<rparr>) = Inr ''DGCNNCls''"
    using build_model_dispatch [of example_registry "default_cfg\<lparr>MODEL_TYPE := ''DGCNN''\<rparr>"
        "\<lambda>cfg. Inr ''DGCNNCls''"]
    by (simp add: example_registry_def MODEL_BUILDERS_def)
  have 2: "build_model example_registry (default_cfg\<lparr>MODEL_TYPE := ''RESNET''\<rparr>) = Inl KeyError"
    unfolding example_registry_def
    using build_model_dispatch [of Map.empty "default_cfg\<lparr>MODEL_TYPE := ''RESNET''\<rparr>"
        "\<lambda>cfg. Inr ''PointNetCls''"
        "\<lambda>cfg. Inr ''PointNetCls''" "\<lambda>cfg. Inr ''DGCNNCls''" "\<lambda>cfg. Inr ''PointNet2SSGCls''"
        "\<lambda>cfg. Inr ''PointNet2MSGCls''" "\<lambda>cfg. Inr ''PNS2CNNCls''" "\<lambda>cfg. Inr ''S2CNNCls''"]
    by simp
  from 1 2 show ?thesis by simp
qed

text \<open>
  C9. For a name that is present, \<open>register_model_builder(name, builder)\<close> raises
  \<open>KeyError\<close> and the registry is unchanged; for a name that is not present it returns
  normally, the registry afterwards maps the name to the builder, and every other
  name is mapped as before.
\<close>

theorem register_model_builder_effect:
  "(name \<in> dom registry \<longrightarrow>
      register_model_builder registry name builder = (Some KeyError, registry)) \<and>
   (name \<notin> dom registry \<longrightarrow>
      fst (register_model_builder registry name builder) = None \<and>
      snd (register_model_builder registry name builder) name = Some builder \<and>
      (\<forall>other. other \<noteq> name \<longrightarrow>
         snd (register_model_builder registry name builder) other = registry other))"
  by (auto simp: register_model_builder_def dom_def split: option.splits)

text \<open>
  The theorem at the present name \<open>DGCNN\<close> and at the new name \<open>RESNET\<close>, which
  \<open>build_model\<close> dispatches afterwards.
\<close>

theorem register_model_builder_witness:
  "register_model_builder example_registry ''DGCNN'' (\<lambda>cfg. Inr ''Other'') =
     (Some KeyError, example_registry) \<and>
   fst (register_model_builder example_registry ''RESNET'' (\<lambda>cfg. Inr ''ResNet'')) = None \<and>
   build_model (snd (register_model_builder example_registry ''RESNET'' (\<lambda>cfg. Inr ''ResNet'')))
     (default_cfg\<lparr>MODEL_TYPE := ''RESNET''\<rparr>) = Inr ''ResNet'' \<and>
   snd (register_model_builder example_registry ''RESNET'' (\<lambda>cfg. Inr ''ResNet'')) ''DGCNN'' =
     example_registry ''DGCNN''"
proof -
  have d: "''DGCNN'' \<in> dom example_registry" "''RESNET'' \<notin> dom example_registry"
    by (simp_all add: example_registry_def dom_MODEL_BUILDERS)
  note a = register_model_builder_effect [of "''DGCNN''" example_registry "\<lambda>cfg. Inr ''Other''"]
  note b = register_model_builder_effect [of "''RESNET''" example_registry "\<lambda>cfg. Inr ''ResNet''"]
  from a d(1) have 1: "register_model_builder example_registry ''DGCNN'' (\<lambda>cfg. Inr ''Other'') =
     (Some KeyError, example_registry)" by blast
  from b d(2) have 2: "fst (register_model_builder example_registry ''RESNET'' (\<lambda>cfg. Inr ''ResNet'')) = None"
    and 3: "snd (register_model_builder example_registry ''RESNET'' (\<lambda>cfg. Inr ''ResNet'')) ''RESNET'' =
             Some (\<lambda>cfg. Inr ''ResNet'')"
    and 4: "snd (register_model_builder example_registry ''RESNET'' (\<lambda>cfg. Inr ''ResNet'')) ''DGCNN'' =
     example_registry ''DGCNN''" by simp_all
  have 5: "build_model (snd (register_model_builder example_registry ''RESNET'' (\<lambda>cfg. Inr ''ResNet'')))
     (default_cfg\<lparr>MODEL_TYPE := ''RESNET''\<rparr>) = Inr ''ResNet''"
    using 3 by (simp add: build_model_def)
  from 1 2 4 5 show ?thesis by simp
qed

section \<open>Building a data loader\<close>

text \<open>
  C6, as amended. For a mode among \<open>train\<close>, \<open>val\<close> and \<open>test\<close>, when
  \<open>build_dataset(cfg, mode)\<close> returns a dataset and, for the mode \<open>train\<close>, the
  configuration has the key \<open>DATALOADER.DROP_LAST\<close>, \<open>build_dataloader(cfg, mode)\<close> is
  the \<open>DataLoader\<close> called with that dataset, with \<open>batch_size\<close>
  \<open>cfg.TRAIN.BATCH_SIZE\<close> for \<open>train\<close> and \<open>cfg.TEST.BATCH_SIZE\<close> otherwise, with
  \<open>shuffle\<close> true exactly for \<open>train\<close>, with \<open>drop_last\<close> true exactly for \<open>train\<close>
  with \<open>cfg.DATALOADER.DROP_LAST\<close> true, and with \<open>num_workers\<close>
  \<open>cfg.DATALOADER.NUM_WORKERS\<close> (first conjunct). An exception of \<open>build_dataset\<close>
  propagates (second conjunct); \<open>build_dataset\<close> raises \<open>NotImplementedError\<close> once the
  transform is built when \<open>cfg.DATASET.TYPE\<close> is none of \<open>ModelNetH5\<close>,
  \<open>ShapeNetH5\<close> and \<open>KITTI\<close> (third conjunct). For any other mode the assertion
  fails (fourth conjunct).
\<close>

theorem build_dataloader_arguments:
  "(mode \<in> {''train'', ''val'', ''test''} \<and> build_dataset T D cfg mode = Inr dataset \<and>
    (mode = ''train'' \<longrightarrow> DATALOADER_DROP_LAST cfg \<noteq> None) \<longrightarrow>
      build_dataloader T D DataLoader cfg mode =
        DataLoader \<lparr>arg_dataset = dataset,
                    arg_batch_size = (if mode = ''train'' then TRAIN_BATCH_SIZE cfg
                                      else TEST_BATCH_SIZE cfg),
                    arg_shuffle = (mode = ''train''),
                    arg_drop_last = (mode = ''train'' \<and> DATALOADER_DROP_LAST cfg = Some True),
                    arg_num_workers = DATALOADER_NUM_WORKERS cfg\<rparr>) \<and>
   (mode \<in> {''train'', ''val'', ''test''} \<and> build_dataset T D cfg mode = Inl e \<longrightarrow>
      build_dataloader T D DataLoader cfg mode = Inl e) \<and>
   (build_transform T cfg (mode = ''train'') = Inr t \<and>
    DATASET_TYPE cfg \<notin> {''ModelNetH5'', ''ShapeNetH5'', ''KITTI''} \<longrightarrow>
      build_dataset T D cfg mode = Inl NotImplementedError) \<and>
   (mode \<notin> {''train'', ''val'', ''test''} \<longrightarrow>
      build_dataloader T D DataLoader cfg mode = Inl AssertionError)"
proof (intro conjI impI)
  assume a: "mode \<in> {''train'', ''val'', ''test''} \<and> build_dataset T D cfg mode = Inr dataset \<and>
    (mode = ''train'' \<longrightarrow> DATALOADER_DROP_LAST cfg \<noteq> None)"
  show "build_dataloader T D DataLoader cfg mode =
        DataLoader \<lparr>arg_dataset = dataset,
                    arg_batch_size = (if mode = ''train'' then TRAIN_BATCH_SIZE cfg
                                      else TEST_BATCH_SIZE cfg),
                    arg_shuffle = (mode = ''train''),
                    arg_drop_last = (mode = ''train'' \<and> DATALOADER_DROP_LAST cfg = Some True),
                    arg_num_workers = DATALOADER_NUM_WORKERS cfg\<rparr>"
  proof (cases "mode = ''train''")
    case True
    with a obtain b where b: "DATALOADER_DROP_LAST cfg = Some b" by auto
    from a have d: "build_dataset T D cfg mode = Inr dataset" by blast
    show ?thesis using True b d by (simp add: build_dataloader_def Let_def)
  next
    case False
    from a have m: "mode \<in> {''train'', ''val'', ''test''}" by blast
    from a have d: "build_dataset T D cfg mode = Inr dataset" by blast
    show ?thesis using False m d by (simp add: build_dataloader_def Let_def)
  qed
next
  assume a: "mode \<in> {''train'', ''val'', ''test''} \<and> build_dataset T D cfg mode = Inl e"
  then show "build_dataloader T D DataLoader cfg mode = Inl e"
    by (simp add: build_dataloader_def Let_def)
next
  assume "build_transform T cfg (mode = ''train'') = Inr t \<and>
    DATASET_TYPE cfg \<notin> {''ModelNetH5'', ''ShapeNetH5'', ''KITTI''}"
  then show "build_dataset T D cfg mode = Inl NotImplementedError"
    by (simp add: build_dataset_unknown_type [of T cfg mode t D])
next
  assume "mode \<notin> {''train'', ''val'', ''test''}"
  then show "build_dataloader T D DataLoader cfg mode = Inl AssertionError"
    by (simp add: build_dataloader_def)
qed

text \<open>
  The theorem at a configuration for \<open>ModelNetH5\<close>, in the modes \<open>train\<close> and
  \<open>test\<close>, and at the mode \<open>predict\<close>.
\<close>

theorem build_dataloader_witness:
  "build_dataloader example_T example_D example_DataLoader modelnet_cfg ''train'' =
     Inr \<lparr>arg_dataset = (''ModelNetH5'',
             \<lparr>arg_root_dir = '''', arg_dataset_names = [''train''], arg_shuffle_points = False,
              arg_num_points = - 1,
              arg_transform = [''PointCloudToTensor'', ''PointCloudTensorTranspose'']\<rparr>),
          arg_batch_size = 32, arg_shuffle = True, arg_drop_last = True, arg_num_workers = 4\<rparr> \<and>
   build_dataloader example_T example_D example_DataLoader modelnet_cfg ''test'' =
     Inr \<lparr>arg_dataset = (''ModelNetH5'',
             \<lparr>arg_root_dir = '''', arg_dataset_names = [''test''], arg_shuffle_points = False,
              arg_num_points = - 1,
              arg_transform = [''PointCloudToTensor'', ''PointCloudTensorTranspose'']\<rparr>),
          arg_batch_size = 32, arg_shuffle = False, arg_drop_last = False, arg_num_workers = 4\<rparr> \<and>
   build_dataloader example_T example_D example_DataLoader modelnet_cfg ''predict'' = Inl AssertionError"
proof -
  have d1: "build_dataset example_T example_D modelnet_cfg ''train'' =
      Inr (''ModelNetH5'',
             \<lparr>arg_root_dir = '''', arg_dataset_names = [''train''], arg_shuffle_points = False,
              arg_num_points = - 1,
              arg_transform = [''PointCloudToTensor'', ''PointCloudTensorTranspose'']\<rparr>)"
    by (simp add: build_dataset_def example_build_transform Let_def)
       (simp add: modelnet_cfg_def default_cfg_def example_D_def)
  have d2: "build_dataset example_T example_D modelnet_cfg ''test'' =
      Inr (''ModelNetH5'',
             \<lparr>arg_root_dir = '''', arg_dataset_names = [''test''], arg_shuffle_points = False,
              arg_num_points = - 1,
              arg_transform = [''PointCloudToTensor'', ''PointCloudTensorTranspose'']\<rparr>)"
    by (simp add: build_dataset_def example_build_transform Let_def)
       (simp add: modelnet_cfg_def default_cfg_def example_D_def)
  have c: "DATALOADER_DROP_LAST modelnet_cfg = Some True" "TRAIN_BATCH_SIZE modelnet_cfg = 32"
    "TEST_BATCH_SIZE modelnet_cfg = 32" "DATALOADER_NUM_WORKERS modelnet_cfg = 4"
    by (simp_all add: modelnet_cfg_def default_cfg_def)
  have 1: "build_dataloader example_T example_D example_DataLoader modelnet_cfg ''train'' =
     Inr \<lparr>arg_dataset = (''ModelNetH5'',
             \<lparr>arg_root_dir = '''', arg_dataset_names = [''train''], arg_shuffle_points = False,
              arg_num_points = - 1,
              arg_transform = [''PointCloudToTensor'', ''PointCloudTensorTranspose'']\<rparr>),
          arg_batch_size = 32, arg_shuffle = True, arg_drop_last = True, arg_num_workers = 4\<rparr>"
    using build_dataloader_arguments [of "''train''" example_T example_D modelnet_cfg _ example_DataLoader]
      d1 c by (simp add: example_DataLoader_def)
  have 2: "build_dataloader example_T example_D example_DataLoader modelnet_cfg ''test'' =
     Inr \<lparr>arg_dataset = (''ModelNetH5'',
             \<lparr>arg_root_dir = '''', arg_dataset_names = [''test''], arg_shuffle_points = False,
              arg_num_points = - 1,
              arg_transform = [''PointCloudToTensor'', ''PointCloudTensorTranspose'']\<rparr>),
          arg_batch_size = 32, arg_shuffle = False, arg_drop_last = False, arg_num_workers = 4\<rparr>"
    using build_dataloader_arguments [of "''test''" example_T example_D modelnet_cfg _ example_DataLoader]
      d2 c by (simp add: example_DataLoader_def)
  have 3: "build_dataloader example_T example_D example_DataLoader modelnet_cfg ''predict'' = Inl AssertionError"
    using build_dataloader_arguments [of "''predict''" example_T example_D modelnet_cfg _ example_DataLoader]
    by simp
  from 1 2 3 show ?thesis by simp
qed

text \<open>
  C6 as stated fails at the default configuration, whose \<open>DATASET.TYPE\<close> is the
  empty string: in the mode \<open>train\<close>, \<open>build_dataset\<close> raises
  \<open>NotImplementedError\<close> and no \<open>DataLoader\<close> is constructed.
\<close>

theorem build_dataloader_counterexample:
  "build_dataloader example_T example_D example_DataLoader default_cfg ''train'' =
     Inl NotImplementedError"
  by (simp add: build_dataloader_def build_dataset_def example_build_transform Let_def)
     (simp add: default_cfg_def)

section \<open>Classification accuracy\<close>

text \<open>
  C7. For predictions that hold \<open>cls_logit\<close>, a batch of rows of per-class scores
  with at least one class, and labels that hold \<open>cls_label\<close>, one label for each
  sample, \<open>ClsAccuracy.forward\<close> returns \<open>{"cls_acc": a}\<close> where \<open>a[i]\<close> is 1 if the
  argmax of the scores of sample \<open>i\<close> equals \<open>cls_label[i]\<close> and 0 otherwise; the argmax
  of a row is an index of the row at which the score is greatest, the first such
  index.
\<close>

theorem cls_accuracy_per_sample:
  assumes p: "preds ''cls_logit'' = Some cls_logit"
    and l: "labels ''cls_label'' = Some cls_label"
    and ne: "[] \<notin> set cls_logit"
    and len: "length cls_label = length cls_logit"
  shows "ClsAccuracy_forward preds labels =
           Inr [''cls_acc'' \<mapsto>
                 map2 (\<lambda>row label. if int (argmax row) = label then 1 else 0) cls_logit cls_label] \<and>
         (\<forall>i<length cls_logit.
            argmax (cls_logit ! i) < length (cls_logit ! i) \<and>
            (\<forall>j<length (cls_logit ! i). cls_logit ! i ! j \<le> cls_logit ! i ! argmax (cls_logit ! i)) \<and>
            (\<forall>j<argmax (cls_logit ! i). cls_logit ! i ! j < cls_logit ! i ! argmax (cls_logit ! i)))"
proof
  have a: "argmax_dim1 cls_logit = Inr (map argmax cls_logit)"
    using ne by (simp add: argmax_dim1_def)
  have e: "tensor_eq (map int (map argmax cls_logit)) cls_label =
             Inr (map2 (\<lambda>x y. x = y) (map (\<lambda>row. int (argmax row)) cls_logit) cls_label)"
    using len by (simp add: tensor_eq_def comp_def)
  have f: "to_float (map2 (\<lambda>x y. x = y) (map (\<lambda>row. int (argmax row)) cls_logit) cls_label) =
             map2 (\<lambda>row label. if int (argmax row) = label then 1 else 0) cls_logit cls_label"
    using len by (simp add: to_float_eq_map)
  show "ClsAccuracy_forward preds labels =
           Inr [''cls_acc'' \<mapsto>
                 map2 (\<lambda>row label. if int (argmax row) = label then 1 else 0) cls_logit cls_label]"
    unfolding ClsAccuracy_forward_def by (simp only: p l a e f option.case sum.case)
next
  show "\<forall>i<length cls_logit.
            argmax (cls_logit ! i) < length (cls_logit ! i) \<and>
            (\<forall>j<length (cls_logit ! i). cls_logit ! i ! j \<le> cls_logit ! i ! argmax (cls_logit ! i)) \<and>
            (\<forall>j<argmax (cls_logit ! i). cls_logit ! i ! j < cls_logit ! i ! argmax (cls_logit ! i))"
  proof (intro allI impI)
    fix i assume "i < length cls_logit"
    then have "cls_logit ! i \<in> set cls_logit" by simp
    with ne have "cls_logit ! i \<noteq> []" by metis
    then show "argmax (cls_logit ! i) < length (cls_logit ! i) \<and>
            (\<forall>j<length (cls_logit ! i). cls_logit ! i ! j \<le> cls_logit ! i ! argmax (cls_logit ! i)) \<and>
            (\<forall>j<argmax (cls_logit ! i). cls_logit ! i ! j < cls_logit ! i ! argmax (cls_logit ! i))"
      by (rule argmax_props)
  qed
qed

text \<open>
  The theorem at a batch of three samples over three classes; the third row has its
  greatest score twice.
\<close>

theorem cls_accuracy_witness:
  "ClsAccuracy_forward [''cls_logit'' \<mapsto> [[1, 3, 2], [5, 4, 0], [2, 7, 7 :: int]]]
     [''cls_label'' \<mapsto> [1, 2, 1]] = Inr [''cls_acc'' \<mapsto> [1, 0, 1]]"
  using cls_accuracy_per_sample [of "[''cls_logit'' \<mapsto> [[1, 3, 2], [5, 4, 0], [2, 7, 7 :: int]]]"
      "[[1, 3, 2], [5, 4, 0], [2, 7, 7]]" "[''cls_label'' \<mapsto> [1, 2, 1]]" "[1, 2, 1]"]
  by (simp add: argmax_def)

section \<open>Cropping and padding a point cloud\<close>

text \<open>
  C8, as amended. For a dataset without a transform and with \<open>num_points > 0\<close>, at a
  valid index whose point file is read and holds at least half of \<open>num_points\<close>
  points, \<open>__getitem__\<close> returns the class index and a \<open>points\<close> array of exactly
  \<open>num_points\<close> rows; when \<open>shuffle_points\<close> is false and the cloud has at least
  \<open>num_points\<close> points, the array is the first \<open>num_points\<close> points in their order;
  when the cloud has fewer than \<open>num_points\<close> points, the array is every point of the
  cloud once (in their order when \<open>shuffle_points\<close> is false) followed by
  \<open>num_points - len(points)\<close> points drawn from the cloud.
\<close>

theorem getitem_crops_or_pads:
  assumes md: "py_index (meta_data self) index = Inr md"
    and cl: "classes_to_ind_map self (class_name md) = Some class_ind"
    and ld: "load_pts (pts_path md) = Inr pts"
    and np: "num_points self > 0"
    and tr: "transform self = None"
    and en: "num_points self \<le> 2 * int (length pts)"
  shows "\<exists>it rng'. getitem self load_pts rng index = Inr (it, rng') \<and>
           cls_labels it = class_ind \<and>
           length (points it) = nat (num_points self) \<and>
           (\<not> shuffle_points self \<and> num_points self \<le> int (length pts) \<longrightarrow>
              points it = take (nat (num_points self)) pts) \<and>
           (int (length pts) < num_points self \<longrightarrow>
              (\<exists>once pad. points it = once @ pad \<and> mset once = mset pts \<and>
                 (\<not> shuffle_points self \<longrightarrow> once = pts) \<and>
                 length pad = nat (num_points self) - length pts \<and>
                 set pad \<subseteq> set pts))"
proof (cases "num_points self \<le> int (length pts)")
  case True
  define it where "it = \<lparr>points = map ((!) pts) (take (nat (num_points self)) (chosen self rng (length pts))),
                 cls_labels = class_ind\<rparr>"
  from getitem_crop[where load_pts = load_pts and md = md and rng = rng, OF md cl ld np tr True]
  obtain rng' where g: "getitem self load_pts rng index = Inr (it, rng')"
    unfolding it_def by blast
  have l: "length (points it) = nat (num_points self)"
    using True np by (simp add: it_def chosen_props)
  have f: "\<not> shuffle_points self \<Longrightarrow> points it = take (nat (num_points self)) pts"
    by (simp add: it_def chosen_props map_nth flip: take_map)
  have c: "cls_labels it = class_ind" by (simp add: it_def)
  show ?thesis using g l f c True by auto
next
  case False
  then have lt: "int (length pts) < num_points self" by simp
  define ch where "ch = chosen self rng (length pts)"
  define perm where "perm = fst (random_permutation
                                (if shuffle_points self then snd (random_permutation rng [0..<length pts])
                                 else rng) ch)"
  define once where "once = map ((!) pts) ch"
  define pad where "pad = map ((!) pts) (take (nat (num_points self - int (length pts))) perm)"
  define it where "it = \<lparr>points = once @ pad, cls_labels = class_ind\<rparr>"
  from getitem_pad[where load_pts = load_pts and md = md and rng = rng, OF md cl ld np tr lt]
  obtain rng' where g: "getitem self load_pts rng index = Inr (it, rng')"
    unfolding it_def once_def pad_def perm_def ch_def by blast
  have mch: "mset ch = mset [0..<length pts]" by (simp add: ch_def chosen_props)
  have mo: "mset once = mset pts"
    unfolding once_def by (rule mset_map_nth_permutation[OF mch])
  have lo: "length once = length pts" by (simp add: once_def ch_def chosen_props)
  have mp: "mset perm = mset [0..<length pts]"
    using mch by (simp add: perm_def mset_random_permutation)
  have lperm: "length perm = length pts"
    using mp by (metis length_upt mset_eq_length minus_nat.diff_0)
  have "set perm = {0..<length pts}"
    using mp by (metis mset_eq_setD set_upt)
  then have "set (take (nat (num_points self - int (length pts))) perm) \<subseteq> {0..<length pts}"
    using set_take_subset[of "nat (num_points self - int (length pts))" perm] by simp
  then have sp: "set pad \<subseteq> set pts"
    unfolding pad_def by (rule set_map_nth_subset)
  have lp: "length pad = nat (num_points self) - length pts"
  proof -
    have "length pad = min (length pts) (nat (num_points self - int (length pts)))"
      by (simp add: pad_def lperm)
    moreover have "nat (num_points self - int (length pts)) = nat (num_points self) - length pts"
      using lt np by linarith
    moreover have "nat (num_points self) - length pts \<le> length pts"
      using en np by linarith
    ultimately show ?thesis by simp
  qed
  have l: "length (points it) = nat (num_points self)"
    using lt np by (simp add: it_def lo lp)
  have u: "\<not> shuffle_points self \<Longrightarrow> once = pts"
    by (simp add: once_def ch_def chosen_props map_nth)
  have c: "cls_labels it = class_ind" "points it = once @ pad" by (simp_all add: it_def)
  have nle: "\<not> num_points self \<le> int (length pts)" using lt by simp
  have ex: "\<exists>once pad. points it = once @ pad \<and> mset once = mset pts \<and>
                 (\<not> shuffle_points self \<longrightarrow> once = pts) \<and>
                 length pad = nat (num_points self) - length pts \<and>
                 set pad \<subseteq> set pts"
    using c(2) mo u lp sp by blast
  show ?thesis using g l c(1) nle ex by blast
qed

text \<open>
  The theorem at the dataset that asks for five points of a file of three.
\<close>

theorem getitem_crops_or_pads_witness:
  "\<exists>it rng'. getitem three_point_dataset three_point_file (\<lambda>i. i) 0 = Inr (it, rng') \<and>
     cls_labels it = 0 \<and> length (points it) = 5 \<and> take 3 (points it) = [10, 20, 30] \<and>
     set (drop 3 (points it)) \<subseteq> {10, 20, 30}"
proof -
  have md: "py_index (meta_data three_point_dataset) 0 = Inr (hd chair_meta)"
    by (simp add: py_index_def three_point_dataset_def chair_meta_def)
  have cl: "classes_to_ind_map three_point_dataset (class_name (hd chair_meta)) = Some 0"
    by (simp add: three_point_dataset_def chair_meta_def)
  have ld: "three_point_file (pts_path (hd chair_meta)) = Inr [10, 20, 30]"
    by (simp add: three_point_file_def chair_meta_def)
  have np: "num_points three_point_dataset > 0"
    and tr: "transform three_point_dataset = None"
    and en: "num_points three_point_dataset \<le> 2 * int (length [10, 20, 30 :: nat])"
    and sh: "\<not> shuffle_points three_point_dataset"
    and n5: "nat (num_points three_point_dataset) = 5"
    by (simp_all add: three_point_dataset_def)
  from getitem_crops_or_pads [where load_pts = three_point_file and md = "hd chair_meta"
      and rng = "\<lambda>i. i", OF md cl ld np tr en]
  obtain it rng' once pad where
    g: "getitem three_point_dataset three_point_file (\<lambda>i. i) 0 = Inr (it, rng')"
    and c: "cls_labels it = 0"
    and l: "length (points it) = 5"
    and p: "points it = once @ pad" "once = [10, 20, 30]" "set pad \<subseteq> set [10, 20, 30]"
    using sh n5 by (auto simp: three_point_dataset_def)
  have "take 3 (points it) = [10, 20, 30]" "set (drop 3 (points it)) \<subseteq> {10, 20, 30}"
    using p by simp_all
  with g c l show ?thesis by blast
qed

text \<open>
  C8 as stated fails for a dataset with a transform: \<open>__getitem__\<close> returns what the
  transform makes of the chosen points. Asked for four points of a cloud of four
  points with three coordinates each, the dataset that transposes returns an array of
  three rows.
\<close>

theorem getitem_transform_counterexample:
  "getitem transposing_dataset four_point_file (\<lambda>i. 0) 0 =
     Inr (\<lparr>points = [[1, 4, 7, 10], [2, 5, 8, 11], [3, 6, 9, 12]], cls_labels = 0\<rparr>, (\<lambda>i. 0)) \<and>
   num_points transposing_dataset = 4"
  by (simp add: getitem_def transposing_dataset_def four_point_file_def chair_meta_def
      py_index_def Let_def upt_rec)

end
